theory Spec2Isabelle
  imports Main
begin

section \<open>Tokens, elements and attributes (token.hpp, node.hpp)\<close>

datatype TokenType = OpenToken | CloseToken | ContentToken | EOF_Token

datatype ElementType =
    DOCSTART | Content
  | Header_1 | Header_2 | Header_3 | Header_4 | Header_5 | Header_6
  | Paragraph | Codeblock | Horizontalline | Hypertext | ImageType | Span
  | List_Ordered | List_Unordered | List_Element
  | Table | Table_Head | Table_Row | Table_Cell | EOF_Reached
  | UnnamedElement int

datatype Attribute =
    Bold | Italic
  | FontSize1 | FontSize2 | FontSize3 | FontSize4 | FontSize5 | FontSize6
  | Inline | Block | BlockQuote
  | TableStyle | TableHeader | TableRow | TableCell | ImageAttr
  | UnnamedAttribute int

text \<open>Both enums are unscoped, so a value is an integer: the enumerators in declaration
  order are the values from 0 on, and \<open>UnnamedElement\<close> and \<open>UnnamedAttribute\<close> carry an
  integer that names no enumerator, which a cast can produce and the code then carries
  on like any other value.\<close>

definition ElementType_values :: "ElementType list" where
  "ElementType_values =
     [DOCSTART, Content, Header_1, Header_2, Header_3, Header_4, Header_5, Header_6,
      Paragraph, Codeblock, Horizontalline, Hypertext, ImageType, Span,
      List_Ordered, List_Unordered, List_Element,
      Table, Table_Head, Table_Row, Table_Cell, EOF_Reached]"

definition Attribute_values :: "Attribute list" where
  "Attribute_values =
     [Bold, Italic, FontSize1, FontSize2, FontSize3, FontSize4, FontSize5, FontSize6,
      Inline, Block, BlockQuote, TableStyle, TableHeader, TableRow, TableCell, ImageAttr]"

fun underlying :: "'a list \<Rightarrow> 'a \<Rightarrow> int" where
  "underlying [] v = 0"
| "underlying (x # xs) v = (if x = v then 0 else 1 + underlying xs v)"

definition ElementType_to_int :: "ElementType \<Rightarrow> int" where
  "ElementType_to_int e =
     (case e of UnnamedElement i \<Rightarrow> i | _ \<Rightarrow> underlying ElementType_values e)"

definition ElementType_of_int :: "int \<Rightarrow> ElementType" where
  "ElementType_of_int i =
     (if 0 \<le> i \<and> i < int (length ElementType_values) then ElementType_values ! nat i
      else UnnamedElement i)"

definition Attribute_to_int :: "Attribute \<Rightarrow> int" where
  "Attribute_to_int a =
     (case a of UnnamedAttribute i \<Rightarrow> i | _ \<Rightarrow> underlying Attribute_values a)"

definition Attribute_of_int :: "int \<Rightarrow> Attribute" where
  "Attribute_of_int i =
     (if 0 \<le> i \<and> i < int (length Attribute_values) then Attribute_values ! nat i
      else UnnamedAttribute i)"

text \<open>\<open>EnumArithmetic\<close> (state.hpp): cast to the underlying integer, add the offset, cast
  back; its two instances, at \<open>ElementType\<close> and at \<open>Attribute\<close>.\<close>

definition enumOp_ElementType :: "ElementType \<Rightarrow> int \<Rightarrow> ElementType" where
  "enumOp_ElementType enum_val offset = ElementType_of_int (ElementType_to_int enum_val + offset)"

definition enumOp_Attribute :: "Attribute \<Rightarrow> int \<Rightarrow> Attribute" where
  "enumOp_Attribute enum_val offset = Attribute_of_int (Attribute_to_int enum_val + offset)"

text \<open>\<open>struct Token\<close>: type, element, content, alt, title.\<close>

datatype Token =
  Token (tok_type: TokenType) (tok_element: ElementType)
        (tok_content: string) (tok_alt: string) (tok_title: string)

text \<open>\<open>struct Node\<close> and its three subclasses. Every node has an element, attributes and
  children; the subclasses add the payload. The \<open>parent\<close> back-pointer is not stored: the
  cursors below are paths from the root, and the parent of a path is the path without its
  last index. Both cursors only ever enter nodes that were attached to the node the
  cursor stood on, so for every node a cursor visits the back-pointer and the path agree.\<close>

datatype Payload =
    Generic
  | ContentText string
  | ImageData string string string
  | HyperlinkData string string string

datatype Node =
  Node (element: ElementType) (attributes: "Attribute list") (children: "Node list")
       (payload: Payload)

definition add_child :: "Node \<Rightarrow> Node \<Rightarrow> Node" where
  "add_child child n = Node (element n) (attributes n) (children n @ [child]) (payload n)"

definition add_attribute :: "Attribute \<Rightarrow> Node \<Rightarrow> Node" where
  "add_attribute a n = Node (element n) (attributes n @ [a]) (children n) (payload n)"

definition set_children :: "Node list \<Rightarrow> Node \<Rightarrow> Node" where
  "set_children cs n = Node (element n) (attributes n) cs (payload n)"

definition set_element :: "ElementType \<Rightarrow> Node \<Rightarrow> Node" where
  "set_element e n = Node e (attributes n) (children n) (payload n)"

definition ContentNode :: "ElementType \<Rightarrow> string \<Rightarrow> Node" where
  "ContentNode type consumed_text = Node type [] [] (ContentText consumed_text)"

definition ImageNode :: "string \<Rightarrow> string \<Rightarrow> string \<Rightarrow> Node" where
  "ImageNode s a t = Node ImageType [] [] (ImageData s a t)"

definition HyperlinkNode :: "string \<Rightarrow> string \<Rightarrow> string \<Rightarrow> Node" where
  "HyperlinkNode href displayed_alt t = Node Hypertext [] [] (HyperlinkData href displayed_alt t)"

definition GenericNode :: "ElementType \<Rightarrow> Node" where
  "GenericNode type = Node type [] [] Generic"

text \<open>Reading and rewriting the node a path designates.\<close>

fun get_node :: "Node \<Rightarrow> nat list \<Rightarrow> Node option" where
  "get_node n [] = Some n"
| "get_node n (i # p) =
     (if i < length (children n) then get_node (children n ! i) p else None)"

fun modify_node :: "(Node \<Rightarrow> Node) \<Rightarrow> nat list \<Rightarrow> Node \<Rightarrow> Node option" where
  "modify_node f [] n = Some (f n)"
| "modify_node f (i # p) n =
     (if i < length (children n)
      then (case modify_node f p (children n ! i) of
              None \<Rightarrow> None
            | Some ch \<Rightarrow> Some (set_children ((children n)[i := ch]) n))
      else None)"

text \<open>\<open>current->parent\<close>: the parent of the root is the null pointer.\<close>

definition parent :: "nat list \<Rightarrow> nat list option" where
  "parent p = (if p = [] then None else Some (butlast p))"


section \<open>Parser states (state.hpp)\<close>

datatype State =
    Data | DataHashtag | DataAsterisk | DataAsteriskData
  | DataDoubleAsterisk | DataDoubleAsteriskData
  | DataTripleAsterisk | DataTripleAsteriskData
  | DataConsumingNumber | DataOrdinalNumber | HorizontalLine
  | DataBacktick | DataDoubleBacktick | CodeInline | CodeBlock
  | UnorderedListPrep | UnorderedList | OrderedListPrep
  | Image | AltOpenSquared | AltClosedSquared | UrlOpenRound
  | TitleOpenRound | TitleConsuming | TitleClosedRound
  | TableHeaderNames | TableHeaderSeparationPipeAwaiting | TableHeaderSeparation
  | TableCellPipeAwaiting | TableCellData

section \<open>Failures\<close>

text \<open>Every \<open>throw\<close> of the parsing core, and the places where the C++ has no defined
  behaviour, are values of \<open>error\<close>:
  \<^item> \<open>ShapeMismatch\<close>: \<open>TreeBuilder::consume_token\<close>, Close of an element other than the cursor's;
  \<^item> \<open>NullCursor\<close>: the builder's \<open>current\<close> is null in \<open>append_subtree\<close>,
    \<open>get_current_element\<close> or \<open>add_attribute\<close>;
  \<^item> \<open>TableNotNulled\<close>, \<open>TableCloseToken\<close>, \<open>EmptyHeader\<close>: the throws of
    \<open>TableManager::consume_token\<close>;
  \<^item> \<open>InternalStateError\<close>: \<open>ReturnStateStack::push\<close> of a state that is no return state;
  \<^item> \<open>UndefinedBehaviour\<close>: a null, dangling or uninitialised pointer is dereferenced, or
    \<open>pop_back\<close> runs on an empty vector;
  \<^item> \<open>NoExit\<close>: a loop that is never left, neither by its header nor by a throw.\<close>

datatype error =
    ShapeMismatch | NullCursor
  | TableNotNulled | TableCloseToken | EmptyHeader
  | InternalStateError | UndefinedBehaviour | NoExit

type_synonym 'a result = "error + 'a"

section \<open>The parsing context (state_handlers.hpp)\<close>

text \<open>\<open>struct Context\<close> owns the emitter, which owns the tree builder and the table manager;
  the record holds the fields of all four objects. The builder's root and cursor are
  \<open>builder_root\<close> and \<open>builder_current\<close>; the table manager's \<open>table_root\<close>, \<open>current\<close> and
  \<open>col_dims\<close> are the \<open>tm_\<close> fields. \<open>short\<close> counters are integers wrapped by \<open>to_short\<close>,
  \<open>size_t\<close> values naturals below \<open>2 ^ 64\<close>. The \<open>Logger\<close> writes time-stamped lines to a
  file and nothing reads them back; its calls are left out, and with them the line
  counter of \<open>Md_Parser\<close>.\<close>

record Context =
  eof_reached :: bool
  consumed :: string
  counter :: int
  alt_counter :: int
  indent_level :: int
  newline_counter :: nat
  src :: string
  alt :: string
  blockquote_in_list :: bool
  is_escaped :: bool
  is_image :: bool
  state :: State
  warning_msg :: string
  return_stack :: "State list"
  builder_root :: Node
  builder_current :: "nat list option"
  tm_table_root :: "Node option"
  tm_current :: "nat list option"
  tm_col_dims :: nat
  table_parsing_flag :: bool

type_synonym action = "Context \<Rightarrow> Context result"

definition to_short :: "int \<Rightarrow> int" where
  "to_short n = (n + 32768) mod 65536 - 32768"

definition to_size_t :: "int \<Rightarrow> nat" where
  "to_size_t n = nat (n mod 18446744073709551616)"

definition INDENTATION :: int where
  "INDENTATION = 4"

text \<open>C++ integer division truncates towards zero.\<close>

definition cpp_div :: "int \<Rightarrow> int \<Rightarrow> int" where
  "cpp_div a b = sgn a * sgn b * (\<bar>a\<bar> div \<bar>b\<bar>)"

text \<open>A statement sequence: each statement runs on the context the one before left, and
  the first failure ends the sequence.\<close>

fun steps :: "action list \<Rightarrow> action" where
  "steps [] c = Inr c"
| "steps (f # fs) c = (case f c of Inl e \<Rightarrow> Inl e | Inr c' \<Rightarrow> steps fs c')"

definition upd :: "(Context \<Rightarrow> Context) \<Rightarrow> action" where
  "upd f c = Inr (f c)"

primrec repeat :: "nat \<Rightarrow> action \<Rightarrow> action" where
  "repeat 0 f c = Inr c"
| "repeat (Suc n) f c = (case f c of Inl e \<Rightarrow> Inl e | Inr c' \<Rightarrow> repeat n f c')"

section \<open>The return-state stack (parsing_helpers.hpp)\<close>

definition allowed_return_states :: "State list" where
  "allowed_return_states =
     [Data, UnorderedListPrep, OrderedListPrep, TableHeaderNames, TableCellData]"

definition is_a_return_state :: "State \<Rightarrow> bool" where
  "is_a_return_state st = list_ex (\<lambda>allowed. allowed = st) allowed_return_states"

text \<open>\<open>push\<close> throws for a state that is no return state. \<open>top\<close> and \<open>top_n_pop\<close> return
  their value together with the warnings they hand to the logger.\<close>

definition push :: "State \<Rightarrow> State list \<Rightarrow> State list result" where
  "push st stack = (if \<not> is_a_return_state st then Inl InternalStateError else Inr (st # stack))"

definition top :: "State list \<Rightarrow> State \<times> string list" where
  "top stack =
     (case stack of
        [] \<Rightarrow> (Data, [''Topping an empty stack. Returning State::Data instead.''])
      | st # _ \<Rightarrow> (st, []))"

definition top_n_pop :: "State list \<Rightarrow> (State \<times> State list) \<times> string list" where
  "top_n_pop stack =
     (case stack of
        [] \<Rightarrow> ((Data, []), [''Popping an empty stack. Returning State::Data instead.''])
      | st # rest \<Rightarrow> ((st, rest), []))"

text \<open>The three calls as the handlers make them on \<open>context.return_stack\<close>.\<close>

definition push_state :: "State \<Rightarrow> action" where
  "push_state st c =
     (case push st (return_stack c) of
        Inl e \<Rightarrow> Inl e
      | Inr stack \<Rightarrow> Inr (c\<lparr>return_stack := stack\<rparr>))"

definition stack_top :: "Context \<Rightarrow> State" where
  "stack_top c = fst (top (return_stack c))"

text \<open>\<open>context.state = context.return_stack->top_n_pop()\<close>\<close>

definition state_from_pop :: "Context \<Rightarrow> Context" where
  "state_from_pop c =
     (let popped = fst (top_n_pop (return_stack c))
      in c\<lparr>state := fst popped, return_stack := snd popped\<rparr>)"


section \<open>The tree builder (tree_builder.hpp)\<close>

text \<open>The node a cursor points to, with its path; \<open>None\<close> when the tree or the cursor is
  null or the cursor points outside the tree.\<close>

definition deref :: "Node option \<Rightarrow> nat list option \<Rightarrow> (nat list \<times> Node) option" where
  "deref tree cur =
     (case tree of
        None \<Rightarrow> None
      | Some r \<Rightarrow>
          (case cur of
             None \<Rightarrow> None
           | Some p \<Rightarrow> (case get_node r p of None \<Rightarrow> None | Some n \<Rightarrow> Some (p, n))))"

definition builder_deref :: "Context \<Rightarrow> (nat list \<times> Node) option" where
  "builder_deref c = deref (Some (builder_root c)) (builder_current c)"

text \<open>Attach a new node under the builder's cursor; with \<open>descend\<close> the cursor moves to it.\<close>

definition builder_attach :: "Node \<Rightarrow> bool \<Rightarrow> action" where
  "builder_attach new_node descend c =
     (case builder_deref c of
        None \<Rightarrow> Inl UndefinedBehaviour
      | Some (p, cur) \<Rightarrow>
          (case modify_node (add_child new_node) p (builder_root c) of
             None \<Rightarrow> Inl UndefinedBehaviour
           | Some r \<Rightarrow>
               Inr (c\<lparr>builder_root := r,
                      builder_current :=
                        (if descend then Some (p @ [length (children cur)]) else Some p)\<rparr>)))"

definition builder_consume_token :: "Token \<Rightarrow> action" where
  "builder_consume_token token c =
     (case tok_type token of
        OpenToken \<Rightarrow>
          (if tok_element token = ImageType
           then builder_attach
                  (ImageNode (tok_content token) (tok_alt token) (tok_title token)) True c
           else if tok_element token = Hypertext
           then builder_attach
                  (HyperlinkNode (tok_content token) (tok_alt token) (tok_title token)) True c
           else builder_attach (GenericNode (tok_element token)) True c)
      | CloseToken \<Rightarrow>
          (case builder_deref c of
             None \<Rightarrow> Inl UndefinedBehaviour
           | Some (p, cur) \<Rightarrow>
               if tok_element token \<noteq> element cur then Inl ShapeMismatch
               else Inr (c\<lparr>builder_current := parent p\<rparr>))
      | ContentToken \<Rightarrow>
          builder_attach (ContentNode (tok_element token) (tok_content token)) False c
      | EOF_Token \<Rightarrow> Inr c)"

definition append_subtree :: "Node option \<Rightarrow> action" where
  "append_subtree subtree_root c =
     (if builder_current c = None then Inl NullCursor
      else case subtree_root of
             None \<Rightarrow> Inl UndefinedBehaviour
           | Some t \<Rightarrow> builder_attach t False c)"

definition get_current_element :: "Context \<Rightarrow> ElementType result" where
  "get_current_element c =
     (if builder_current c = None then Inl NullCursor
      else case builder_deref c of
             None \<Rightarrow> Inl UndefinedBehaviour
           | Some (p, cur) \<Rightarrow> Inr (element cur))"

definition builder_add_attribute :: "Attribute \<Rightarrow> action" where
  "builder_add_attribute att c =
     (case builder_current c of
        None \<Rightarrow> Inl NullCursor
      | Some p \<Rightarrow>
          (case modify_node (add_attribute att) p (builder_root c) of
             None \<Rightarrow> Inl UndefinedBehaviour
           | Some r \<Rightarrow> Inr (c\<lparr>builder_root := r\<rparr>)))"

section \<open>The table manager (emitting_middleware.hpp)\<close>

definition tm_deref :: "Context \<Rightarrow> (nat list \<times> Node) option" where
  "tm_deref c = deref (tm_table_root c) (tm_current c)"

text \<open>Rewrite the node under the table manager's cursor and set the cursor.\<close>

definition tm_modify :: "(Node \<Rightarrow> Node) \<Rightarrow> (nat list \<Rightarrow> Node \<Rightarrow> nat list option) \<Rightarrow> action" where
  "tm_modify f move c =
     (case tm_deref c of
        None \<Rightarrow> Inl UndefinedBehaviour
      | Some (p, cur) \<Rightarrow>
          (case tm_table_root c of
             None \<Rightarrow> Inl UndefinedBehaviour
           | Some r \<Rightarrow>
               (case modify_node f p r of
                  None \<Rightarrow> Inl UndefinedBehaviour
                | Some r' \<Rightarrow> Inr (c\<lparr>tm_table_root := Some r', tm_current := move p cur\<rparr>))))"

text \<open>\<open>current = current->parent\<close>\<close>

definition tm_ascend :: action where
  "tm_ascend c =
     (case tm_deref c of
        None \<Rightarrow> Inl UndefinedBehaviour
      | Some (p, cur) \<Rightarrow> Inr (c\<lparr>tm_current := parent p\<rparr>))"

definition create_new_node :: "Token \<Rightarrow> action" where
  "create_new_node token c =
     (let node = GenericNode (tok_element token);
          node = (if tok_element token = Table_Row then add_attribute TableRow node
                  else if tok_element token = Table_Head then add_attribute TableHeader node
                  else if tok_element token = Table_Cell then add_attribute TableCell node
                  else node)
      in tm_modify (add_child node) (\<lambda>p cur. Some (p @ [length (children cur)])) c)"

text \<open>The padding loop of a closed body row:
  \<open>for (t = children.size(); t < col_dims; ++t)\<close> appends a bare \<open>Table_Cell\<close>.\<close>

definition pad_row :: "nat \<Rightarrow> Node \<Rightarrow> Node" where
  "pad_row dims n =
     set_children (children n @ replicate (dims - length (children n)) (GenericNode Table_Cell)) n"

definition table_consume_token :: "Token \<Rightarrow> action" where
  "table_consume_token token c =
     (case tok_element token of
        Table \<Rightarrow>
          (if tok_type token = OpenToken
           then (if tm_table_root c \<noteq> None then Inl TableNotNulled
                 else Inr (c\<lparr>tm_table_root := Some (add_attribute TableStyle (GenericNode Table)),
                             tm_current := Some []\<rparr>))
           else Inl TableCloseToken)
      | Table_Row \<Rightarrow>
          (if tok_type token = OpenToken then create_new_node token c
           else if tm_col_dims c \<noteq> 0
           then tm_modify (pad_row (tm_col_dims c)) (\<lambda>p cur. parent p) c
           else (case tm_deref c of
                   None \<Rightarrow> Inl UndefinedBehaviour
                 | Some (p, cur) \<Rightarrow>
                     if children cur = [] then Inl UndefinedBehaviour
                     else if length (children cur) - 1 = 0 then Inl EmptyHeader
                     else steps
                            [upd (\<lambda>c. c\<lparr>tm_col_dims := length (children cur) - 1\<rparr>),
                             tm_modify (\<lambda>n. set_children (butlast (children n)) n)
                               (\<lambda>p cur. parent p)] c))
      | Table_Head \<Rightarrow>
          (if tok_type token = OpenToken then create_new_node token c else tm_ascend c)
      | Table_Cell \<Rightarrow>
          (case tm_deref c of
             None \<Rightarrow> Inl UndefinedBehaviour
           | Some (p, cur) \<Rightarrow>
               if tok_type token = OpenToken
               then (if length (children cur) < tm_col_dims c then create_new_node token c
                     else Inr c)
               else (if element cur = Table_Cell then tm_ascend c else Inr c))
      | Content \<Rightarrow>
          (case tm_deref c of
             None \<Rightarrow> Inl UndefinedBehaviour
           | Some (p, cur) \<Rightarrow>
               if element cur = Table_Row then Inr c
               else tm_modify (add_child (ContentNode Content (tok_content token)))
                      (\<lambda>p cur. Some p) c)
      | Hypertext \<Rightarrow>
          (if tok_type token = OpenToken
           then tm_modify
                  (add_child (HyperlinkNode (tok_content token) (tok_alt token) (tok_title token)))
                  (\<lambda>p cur. Some (p @ [length (children cur)])) c
           else steps [tm_ascend, tm_ascend] c)
      | Span \<Rightarrow>
          (if tok_type token = OpenToken then create_new_node token c else tm_ascend c)
      | Codeblock \<Rightarrow>
          (if tok_type token = OpenToken then create_new_node token c else tm_ascend c)
      | _ \<Rightarrow> Inr c)"

definition tm_add_attribute :: "Attribute \<Rightarrow> action" where
  "tm_add_attribute attr c = tm_modify (add_attribute attr) (\<lambda>p cur. Some p) c"

definition emit_on_success :: action where
  "emit_on_success c =
     steps [append_subtree (tm_table_root c), upd (\<lambda>c. c\<lparr>tm_table_root := None\<rparr>)] c"

definition emit_row_as_paragraph :: "Node \<Rightarrow> action" where
  "emit_row_as_paragraph row_p c =
     (if children row_p = [] then Inr c
      else append_subtree
             (Some (set_children
                      (concat (map (\<lambda>td_node. ContentNode Content ''|'' # children td_node)
                                 (children row_p)))
                      (set_element Paragraph row_p))) c)"

text \<open>With a null \<open>table_root\<close>, \<open>emit_on_failure\<close> first calls \<open>logger->log_error\<close>
  through the member \<open>logger\<close> of \<open>TableManager\<close>, which the constructor never sets: the
  call goes through an uninitialised pointer and the \<open>throw\<close> behind it is not reached.\<close>

definition emit_on_failure :: action where
  "emit_on_failure c =
     (case tm_table_root c of
        None \<Rightarrow> Inl UndefinedBehaviour
      | Some table \<Rightarrow>
          if children table = [] then Inr c
          else steps
                 [upd (\<lambda>c. c\<lparr>tm_table_root := Some (set_children (butlast (children table)) table)\<rparr>),
                  (\<lambda>c. if butlast (children table) \<noteq> [] then emit_on_success c else Inr c),
                  emit_row_as_paragraph (last (children table)),
                  upd (\<lambda>c. c\<lparr>tm_table_root := None, tm_col_dims := 0\<rparr>)] c)"

section \<open>The token emitter (emitting_middleware.hpp)\<close>

datatype ParseWarningFlags = TableFailed | TableSuccess

definition emitter_emit_token :: "Token \<Rightarrow> action" where
  "emitter_emit_token to_emit c =
     (if table_parsing_flag c then table_consume_token to_emit c
      else if tok_element to_emit = Table
      then table_consume_token to_emit (c\<lparr>table_parsing_flag := True\<rparr>)
      else builder_consume_token to_emit c)"

definition handle_flag :: "ParseWarningFlags \<Rightarrow> action" where
  "handle_flag flag c =
     (case flag of
        TableFailed \<Rightarrow> steps [emit_on_failure, upd (\<lambda>c. c\<lparr>table_parsing_flag := False\<rparr>)] c
      | TableSuccess \<Rightarrow> steps [emit_on_success, upd (\<lambda>c. c\<lparr>table_parsing_flag := False\<rparr>)] c)"

definition emitter_add_attribute :: "Attribute \<Rightarrow> action" where
  "emitter_add_attribute attr c =
     (if table_parsing_flag c then tm_add_attribute attr c else builder_add_attribute attr c)"


section \<open>Methods of the context (state_handlers.hpp)\<close>

abbreviation NL :: char where "NL \<equiv> CHR 0x0A"
abbreviation TAB :: char where "TAB \<equiv> CHR 0x09"
abbreviation BSLASH :: char where "BSLASH \<equiv> CHR 0x5C"
abbreviation BTICK :: char where "BTICK \<equiv> CHR 0x60"
abbreviation DQUOTE :: char where "DQUOTE \<equiv> CHR 0x22"

definition emit_token :: "TokenType \<Rightarrow> ElementType \<Rightarrow> action" where
  "emit_token type el c =
     (case type of
        OpenToken \<Rightarrow> emitter_emit_token (Token type el [] [] []) c
      | CloseToken \<Rightarrow> emitter_emit_token (Token type el [] [] []) (c\<lparr>consumed := []\<rparr>)
      | ContentToken \<Rightarrow>
          emitter_emit_token (Token type el (consumed c) [] []) (c\<lparr>consumed := []\<rparr>)
      | EOF_Token \<Rightarrow> emitter_emit_token (Token type el [] [] []) c)"

definition emit_content_token :: action where
  "emit_content_token c =
     (if consumed c = [] then Inr c
      else case get_current_element c of
             Inl e \<Rightarrow> Inl e
           | Inr el \<Rightarrow>
               if el = DOCSTART
               then steps [emit_token OpenToken Paragraph, emit_token ContentToken Content] c
               else emit_token ContentToken Content c)"

definition in_table :: "Context \<Rightarrow> bool" where
  "in_table c = (stack_top c = TableHeaderNames \<or> stack_top c = TableCellData)"

definition handle_pipe_in_table :: "string \<Rightarrow> bool \<Rightarrow> action" where
  "handle_pipe_in_table to_emit full c =
     (let to_close = (if stack_top c = TableCellData then Table_Cell else Table_Head)
      in steps
           [upd (\<lambda>c. c\<lparr>consumed := (if full then to_emit else to_emit @ consumed c)\<rparr>),
            emit_token ContentToken Content,
            upd state_from_pop,
            emit_token CloseToken to_close,
            emit_token OpenToken to_close] c)"

text \<open>\<open>handle_unexpected_newline(std::string&& to_emit, bool EOF_Reached)\<close>. Where a
  handler passes \<open>std::move(context.consumed)\<close>, the parameter is a reference to
  \<open>consumed\<close> itself, and \<open>consumed += to_emit\<close> appends the buffer to itself; such a
  call is modelled by passing \<open>consumed c\<close> as \<open>to_emit\<close>.\<close>

definition handle_unexpected_newline :: "string \<Rightarrow> bool \<Rightarrow> action" where
  "handle_unexpected_newline to_emit EOF_flag c =
     (if stack_top c = TableHeaderNames \<or> stack_top c = TableCellData
      then steps
             [upd (\<lambda>c. c\<lparr>consumed := consumed c @ to_emit\<rparr>),
              emit_token ContentToken Content,
              handle_flag TableFailed,
              upd state_from_pop] c
      else steps
             [(\<lambda>c. if to_emit \<noteq> []
                   then steps [upd (\<lambda>c. c\<lparr>consumed := consumed c @ to_emit\<rparr>),
                               emit_content_token] c
                   else Inr c),
              (\<lambda>c. case get_current_element c of
                     Inl e \<Rightarrow> Inl e
                   | Inr currElement \<Rightarrow>
                       if currElement = Paragraph \<and> \<not> EOF_flag
                       then Inr (c\<lparr>newline_counter := to_size_t (int (newline_counter c) + 1)\<rparr>)
                       else steps [upd (\<lambda>c. c\<lparr>newline_counter := 0\<rparr>),
                                   emit_token CloseToken currElement] c),
              upd (\<lambda>c. c\<lparr>counter := 0\<rparr>),
              upd state_from_pop] c)"

definition setup_list_parsing :: "Context \<Rightarrow> Context" where
  "setup_list_parsing c = c\<lparr>counter := 0, indent_level := 0\<rparr>"

definition move_up_the_tree :: action where
  "move_up_the_tree c =
     (case get_current_element c of
        Inl e \<Rightarrow> Inl e
      | Inr el \<Rightarrow> emit_token CloseToken el c)"

definition consumed_only_whitespace :: "Context \<Rightarrow> bool" where
  "consumed_only_whitespace c = list_all (\<lambda>ch. ch = CHR '' '' \<or> ch = TAB) (consumed c)"

definition emit_image :: action where
  "emit_image c =
     steps [emitter_emit_token (Token OpenToken ImageType (src c) (alt c) (consumed c)),
            emit_token CloseToken ImageType,
            upd (\<lambda>c. c\<lparr>src := [], alt := [], consumed := []\<rparr>)] c"

definition emit_hyperlink :: action where
  "emit_hyperlink c =
     steps [emitter_emit_token (Token OpenToken Hypertext (src c) (alt c) (consumed c)),
            emit_token CloseToken Hypertext,
            upd (\<lambda>c. c\<lparr>src := [], alt := [], consumed := []\<rparr>)] c"

text \<open>Small statements the handlers repeat.\<close>

definition append_consumed :: "string \<Rightarrow> action" where
  "append_consumed s c = Inr (c\<lparr>consumed := consumed c @ s\<rparr>)"

definition set_state :: "State \<Rightarrow> action" where
  "set_state st c = Inr (c\<lparr>state := st\<rparr>)"

definition set_warning :: "string \<Rightarrow> action" where
  "set_warning msg c = Inr (c\<lparr>warning_msg := msg\<rparr>)"

definition incr_counter :: action where
  "incr_counter c = Inr (c\<lparr>counter := to_short (counter c + 1)\<rparr>)"

text \<open>\<open>for (short i = 0; i < context.counter; ++i) consumed += ch\<close>\<close>

definition append_counter_times :: "char \<Rightarrow> action" where
  "append_counter_times ch c = Inr (c\<lparr>consumed := consumed c @ replicate (nat (counter c)) ch\<rparr>)"

text \<open>\<open>isdigit\<close> on an ASCII character.\<close>

definition isdigit :: "char \<Rightarrow> bool" where
  "isdigit ch = (48 \<le> (of_char ch :: nat) \<and> (of_char ch :: nat) \<le> 57)"

text \<open>\<open>a + b\<close> on two \<open>char\<close>s is an \<open>int\<close>; assigned or appended to a \<open>std::string\<close> it is
  narrowed to one \<open>char\<close>.\<close>

definition char_sum :: "char \<Rightarrow> char \<Rightarrow> char" where
  "char_sum a b = char_of ((of_char a :: nat) + of_char b)"

text \<open>The number of runs of \<open>for (short i = 0; i <= last; i = i + INDENTATION)\<close>; \<open>None\<close>
  when \<open>i\<close> wraps to a negative value before it has passed \<open>last\<close>, so that the header
  never ends the loop.\<close>

definition indent_loop_count :: "int \<Rightarrow> nat option" where
  "indent_loop_count last_i =
     (if last_i < 0 then Some 0
      else if last_i \<le> 32763 then Some (nat (last_i div INDENTATION + 1))
      else None)"

definition cursor_depth :: "nat list option \<Rightarrow> nat" where
  "cursor_depth cur = (case cur of None \<Rightarrow> 0 | Some p \<Rightarrow> length p)"

text \<open>The loop with the body \<open>move_up_the_tree()\<close>. When the header never ends it, the loop
  runs until its body throws. A run of the body that does not fail either moves a cursor
  up (the builder's, or the table manager's while a table is parsed), or moves none, and
  then no later run moves one or fails; a cursor moved past the root fails the next run.
  So a body that has not failed after as many runs as the two cursors are deep, and two
  more, never fails, and the loop does not end: \<open>NoExit\<close>.\<close>

definition move_up_loop :: "int \<Rightarrow> action" where
  "move_up_loop last_i c =
     (case indent_loop_count last_i of
        Some n \<Rightarrow> repeat n move_up_the_tree c
      | None \<Rightarrow>
          (case repeat (cursor_depth (builder_current c) + cursor_depth (tm_current c) + 2)
                  move_up_the_tree c of
             Inl e \<Rightarrow> Inl e
           | Inr c' \<Rightarrow> Inl NoExit))"

section \<open>The state handlers (state_handlers.hpp, namespace handlers)\<close>

definition handleData :: "char \<Rightarrow> action" where
  "handleData next c =
     (if next = CHR ''#'' then
        (if consumed c = []
         then steps [push_state Data, incr_counter, set_state DataHashtag] c
         else append_consumed [next] c)
      else if next = CHR ''*'' then
        steps [emit_content_token, push_state Data, set_state DataAsterisk] c
      else if next = CHR ''-'' then
        (if consumed c = []
         then steps [incr_counter, push_state Data, set_state HorizontalLine] c
         else append_consumed [next] c)
      else if next = BTICK then
        steps [emit_content_token, push_state Data, set_state DataBacktick] c
      else if next = CHR ''>'' then
        (if consumed c = []
         then steps [emit_token OpenToken Span, emitter_add_attribute BlockQuote,
                     push_state Data] c
         else append_consumed [next] c)
      else if next = CHR ''['' then
        steps [emit_content_token, push_state Data,
               upd (\<lambda>c. c\<lparr>is_image := False, state := AltOpenSquared\<rparr>)] c
      else if next = CHR ''!'' then
        steps [emit_content_token, upd (\<lambda>c. c\<lparr>state := Image, is_image := True\<rparr>),
               push_state Data] c
      else if next = CHR ''|'' then
        (if consumed_only_whitespace c
         then steps [upd (\<lambda>c. c\<lparr>consumed := [], state := TableHeaderNames\<rparr>),
                     push_state Data,
                     emit_token OpenToken Table,
                     emit_token OpenToken Table_Row,
                     emit_token OpenToken Table_Head] c
         else append_consumed ''|'' c)
      else if next = NL then
        (case get_current_element c of
           Inl e \<Rightarrow> Inl e
         | Inr curr_el \<Rightarrow>
             steps
               [emit_content_token,
                (\<lambda>c. if newline_counter c = 1 \<and> curr_el = Paragraph
                      then emit_token CloseToken Paragraph c
                      else if curr_el \<noteq> DOCSTART \<and> curr_el \<noteq> Paragraph
                      then steps
                             [emit_token CloseToken curr_el,
                              (\<lambda>c. if blockquote_in_list c
                                    then steps [emit_token CloseToken List_Element,
                                                upd (\<lambda>c. c\<lparr>blockquote_in_list := False\<rparr>)] c
                                    else Inr c),
                              upd state_from_pop] c
                      else Inr c),
                (\<lambda>c. if curr_el = Paragraph
                      then Inr (c\<lparr>newline_counter := to_size_t (int (newline_counter c) + 1)\<rparr>)
                      else Inr c)] c)
      else if consumed c = [] \<and> isdigit next then
        steps [append_consumed [next], push_state Data, set_state DataConsumingNumber] c
      else append_consumed [next] c)"

definition handleHashtag :: "char \<Rightarrow> action" where
  "handleHashtag next c =
     (if next = CHR ''#'' \<and> counter c < 6 then incr_counter c
      else if next = CHR '' '' then
        steps
          [emit_token OpenToken (enumOp_ElementType Header_1 (counter c - 1)),
           emitter_add_attribute Bold,
           (\<lambda>c. emitter_add_attribute (enumOp_Attribute FontSize1 (counter c - 1)) c),
           upd (\<lambda>c. c\<lparr>counter := 0\<rparr>),
           push_state Data,
           set_state Data] c
      else if next = NL then
        steps [append_counter_times CHR ''#'',
               (\<lambda>c. handle_unexpected_newline (consumed c) (eof_reached c) c)] c
      else steps [append_counter_times CHR ''#'', upd state_from_pop] c)"

definition handleDataAsterisk :: "char \<Rightarrow> action" where
  "handleDataAsterisk next c =
     (if next = CHR ''*'' then set_state DataDoubleAsterisk c
      else if next = NL then
        steps [set_warning ''Unclosed asterisk signifying bold text - converting '*' to plain text'',
               handle_unexpected_newline ''*'' (eof_reached c)] c
      else if next = CHR ''|'' \<and> in_table c then
        steps [set_warning ''Unclosed asterisk signifying bold text - converting '*' to plain text'',
               handle_pipe_in_table ''*'' False] c
      else steps [append_consumed [next], set_state DataAsteriskData] c)"

definition handleAsteriskData :: "char \<Rightarrow> action" where
  "handleAsteriskData next c =
     (if next = CHR ''*'' then
        steps [emit_token OpenToken Span, emitter_add_attribute Italic,
               emit_token ContentToken Content, emit_token CloseToken Span,
               upd state_from_pop] c
      else if next = NL then
        steps [set_warning ''Unclosed asterisk signifying bold text - converting to plain text'',
               handle_unexpected_newline (CHR ''*'' # consumed c) (eof_reached c)] c
      else if next = CHR ''|'' \<and> in_table c then
        steps [set_warning ''Unclosed asterisk signifying bold text - converting to plain text'',
               handle_pipe_in_table ''*'' False] c
      else append_consumed [next] c)"

definition handleDoubleAsterisk :: "char \<Rightarrow> action" where
  "handleDoubleAsterisk next c =
     (if next = CHR ''*'' then set_state DataTripleAsterisk c
      else if next = NL then
        steps [set_warning ''Unclosed asterisk signifying bold text - converting '**' to plain text'',
               handle_unexpected_newline ''**'' (eof_reached c)] c
      else if next = CHR ''|'' \<and> in_table c then
        steps [set_warning ''Unclosed asterisk signifying bold text - converting '**' to plain text'',
               handle_pipe_in_table ''**'' False] c
      else steps [append_consumed [next], set_state DataDoubleAsteriskData] c)"

definition handleDataDoubleAsteriskData :: "char \<Rightarrow> action" where
  "handleDataDoubleAsteriskData next c =
     (if next = CHR ''*'' then
        steps
          [incr_counter,
           (\<lambda>c. if counter c = 2
                 then steps [upd (\<lambda>c. c\<lparr>counter := 0\<rparr>),
                             emit_token OpenToken Span, emitter_add_attribute Bold,
                             emit_token ContentToken Content, emit_token CloseToken Span,
                             upd state_from_pop] c
                 else Inr c)] c
      else if next = NL then
        steps [set_warning ''Unclosed asterisk signifying bold text - converting to plain text'',
               upd (\<lambda>c. c\<lparr>consumed := ''**'' @ consumed c\<rparr>),
               (\<lambda>c. if counter c = 1 then append_consumed ''*'' c else Inr c),
               (\<lambda>c. handle_unexpected_newline (consumed c) (eof_reached c) c)] c
      else if next = CHR ''|'' \<and> in_table c then
        steps [set_warning ''Unclosed asterisk signifying bold text - converting to plain text'',
               handle_pipe_in_table ''**'' False] c
      else steps [(\<lambda>c. if counter c \<noteq> 0 then Inr (c\<lparr>counter := 0\<rparr>) else Inr c),
                  append_consumed [next]] c)"

definition handleDataTripleAsterisk :: "char \<Rightarrow> action" where
  "handleDataTripleAsterisk next c =
     (if next = CHR ''*'' then steps [append_consumed ''****'', upd state_from_pop] c
      else if next = NL then
        steps [set_warning ''Unclosed asterisk signifying bold text - converting '***' to plain text'',
               handle_unexpected_newline ''***'' (eof_reached c)] c
      else if next = CHR ''|'' \<and> in_table c then
        steps [set_warning ''Unclosed asterisk signifying bold text - converting '***' to plain text'',
               handle_pipe_in_table ''***'' False] c
      else steps [append_consumed [next], set_state DataTripleAsteriskData] c)"

definition handleDataTripleAsteriskData :: "char \<Rightarrow> action" where
  "handleDataTripleAsteriskData next c =
     (if next = CHR ''*'' then
        steps
          [incr_counter,
           (\<lambda>c. if counter c = 3
                 then steps [upd (\<lambda>c. c\<lparr>counter := 0\<rparr>),
                             emit_token OpenToken Span,
                             emitter_add_attribute Bold, emitter_add_attribute Italic,
                             emit_token ContentToken Content, emit_token CloseToken Span,
                             upd state_from_pop] c
                 else Inr c)] c
      else if next = NL then
        steps [set_warning ''Unclosed asterisk signifying bold text - converting to plain text'',
               upd (\<lambda>c. c\<lparr>consumed := ''***'' @ consumed c\<rparr>),
               append_counter_times CHR ''*'',
               (\<lambda>c. handle_unexpected_newline (consumed c) (eof_reached c) c)] c
      else if next = CHR ''|'' \<and> in_table c then
        steps [set_warning ''Unclosed asterisk signifying bold text - converting to plain text'',
               handle_pipe_in_table ''***'' False] c
      else steps [(\<lambda>c. if counter c \<noteq> 0 then Inr (c\<lparr>counter := 0\<rparr>) else Inr c),
                  append_consumed [next]] c)"

definition handleDataConsumingNumber :: "char \<Rightarrow> action" where
  "handleDataConsumingNumber next c =
     (if next = CHR ''.'' then steps [append_consumed ''.'', set_state DataOrdinalNumber] c
      else if next = NL then handle_unexpected_newline (consumed c) (eof_reached c) c
      else steps [append_consumed [next], upd state_from_pop] c)"

text \<open>The part the two list handlers share: open the \<open>BlockQuote\<close> span of a list item.\<close>

definition open_blockquote_in_list :: action where
  "open_blockquote_in_list c =
     (if blockquote_in_list c
      then steps [emit_token OpenToken Span, emitter_add_attribute BlockQuote] c
      else Inr c)"

text \<open>\<open>if (counter % INDENTATION != 0) --counter;
  short curr_indent = (indent_level - counter) / INDENTATION;
  indent_level = counter; counter = 0;
  for (size_t i = 0; i < curr_indent; ++i) move_up_the_tree();\<close>\<close>

definition ascend_to_indent :: action where
  "ascend_to_indent c =
     (let cnt = (if counter c mod INDENTATION \<noteq> 0 then to_short (counter c - 1) else counter c);
          curr_indent = to_short (cpp_div (indent_level c - cnt) INDENTATION)
      in repeat (to_size_t curr_indent) move_up_the_tree
           (c\<lparr>indent_level := cnt, counter := 0\<rparr>))"

definition handleDataOrdinalNumber :: "char \<Rightarrow> action" where
  "handleDataOrdinalNumber next c =
     (if next = CHR '' '' then
        (case get_current_element (c\<lparr>consumed := []\<rparr>) of
           Inl e \<Rightarrow> Inl e
         | Inr el \<Rightarrow>
             if el = List_Ordered \<or> el = List_Unordered
             then (if counter c \<ge> indent_level c + INDENTATION
                   then steps
                          [upd (\<lambda>c. c\<lparr>consumed := [], indent_level := counter c, counter := 0\<rparr>),
                           emit_token OpenToken List_Ordered,
                           emit_token OpenToken List_Element,
                           open_blockquote_in_list,
                           push_state OrderedListPrep,
                           set_state Data] c
                   else steps
                          [upd (\<lambda>c. c\<lparr>consumed := []\<rparr>),
                           ascend_to_indent,
                           push_state OrderedListPrep,
                           emit_token OpenToken List_Element,
                           open_blockquote_in_list,
                           set_state Data] c)
             else steps
                    [upd (\<lambda>c. c\<lparr>consumed := []\<rparr>),
                     emit_token OpenToken List_Ordered,
                     emit_token OpenToken List_Element,
                     push_state OrderedListPrep,
                     set_state Data] c)
      else if next = NL then handle_unexpected_newline (consumed c) (eof_reached c) c
      else steps [append_consumed [next], upd state_from_pop] c)"

definition handleHorizontalLine :: "char \<Rightarrow> action" where
  "handleHorizontalLine next c =
     (if next = CHR ''-'' then incr_counter c
      else if next = NL then
        (if counter c \<ge> 3
         then steps [emit_token OpenToken Horizontalline, emit_token CloseToken Horizontalline,
                     upd state_from_pop, upd (\<lambda>c. c\<lparr>counter := 0\<rparr>)] c
         else steps [append_counter_times CHR ''-'', upd (\<lambda>c. c\<lparr>counter := 0\<rparr>),
                     emit_content_token, upd state_from_pop] c)
      else if (next = CHR '' '' \<or> next = TAB) \<and> counter c = 1 then
        steps [emit_token OpenToken List_Unordered, emit_token OpenToken List_Element,
               set_state Data, push_state UnorderedListPrep, upd setup_list_parsing] c
      else steps [append_counter_times CHR ''-'', upd (\<lambda>c. c\<lparr>counter := 0\<rparr>),
                  append_consumed [next], emit_content_token, upd state_from_pop] c)"

definition handleDataBacktick :: "char \<Rightarrow> action" where
  "handleDataBacktick next c =
     (if next = BTICK then
        (if in_table c
         then steps [upd (\<lambda>c. c\<lparr>consumed := [BTICK, BTICK]\<rparr>),
                     emit_token ContentToken Content, upd state_from_pop] c
         else set_state DataDoubleBacktick c)
      else if next = NL then
        steps [set_warning ''Unclosed backtick signifying a code element - handling as plain text'',
               handle_unexpected_newline [BTICK] (eof_reached c)] c
      else if next = CHR ''|'' \<and> in_table c then
        steps [set_warning ''Unclosed backtick signifying a code element - handling as plain text'',
               handle_pipe_in_table [BTICK] False] c
      else steps [append_consumed [next], set_state CodeInline] c)"

definition handleDataDoubleBacktick :: "char \<Rightarrow> action" where
  "handleDataDoubleBacktick next c =
     (if next = BTICK then set_state CodeBlock c
      else if next = NL then handle_unexpected_newline [BTICK, BTICK] (eof_reached c) c
      else steps [upd (\<lambda>c. c\<lparr>consumed := [BTICK, BTICK]\<rparr>), emit_content_token,
                  upd state_from_pop] c)"

definition handleCodeInlineState :: "char \<Rightarrow> action" where
  "handleCodeInlineState next c =
     (if next = BTICK then
        steps [emit_token OpenToken Codeblock, emitter_add_attribute Inline,
               emit_token ContentToken Content, emit_token CloseToken Codeblock,
               upd state_from_pop] c
      else if next = NL then
        steps [set_warning ''Unclosed backtick signifying a code element - handling as plain text'',
               handle_unexpected_newline (BTICK # consumed c) (eof_reached c)] c
      else if next = CHR ''|'' \<and> in_table c then
        steps [set_warning ''Unclosed backtick signifying a code element - handling as plain text'',
               handle_pipe_in_table [BTICK] False] c
      else append_consumed [next] c)"

definition handleCodeBlock :: "char \<Rightarrow> action" where
  "handleCodeBlock next c =
     (if next = BTICK then
        steps
          [incr_counter,
           (\<lambda>c. if counter c = 3
                 then steps [emit_token OpenToken Codeblock, emitter_add_attribute Block,
                             emit_token ContentToken Content, emit_token CloseToken Codeblock,
                             upd (\<lambda>c. c\<lparr>counter := 0\<rparr>), upd state_from_pop] c
                 else Inr c)] c
      else steps
             [(\<lambda>c. if counter c \<noteq> 0
                   then steps [append_counter_times BTICK, upd (\<lambda>c. c\<lparr>counter := 0\<rparr>)] c
                   else Inr c),
              append_consumed [next]] c)"


text \<open>The exit of a list, shared by the two list-preparation handlers:
  \<open>for (short i = 0; i <= indent_level; i = i + INDENTATION) move_up_the_tree();\<close>\<close>

definition leave_list :: action where
  "leave_list c = move_up_loop (indent_level c) c"

definition handleUnorderedListPrep :: "char \<Rightarrow> action" where
  "handleUnorderedListPrep next c =
     (if next = NL then steps [upd state_from_pop, leave_list, upd setup_list_parsing] c
      else if next = CHR '' '' then incr_counter c
      else if next = TAB then upd (\<lambda>c. c\<lparr>counter := to_short (counter c + INDENTATION)\<rparr>) c
      else if next = CHR ''*'' \<or> next = CHR ''+'' \<or> next = CHR ''>'' \<or> next = CHR ''-'' then
        (if counter c > indent_level c + INDENTATION
         then steps [leave_list, upd state_from_pop, upd setup_list_parsing,
                     upd (\<lambda>c. c\<lparr>consumed := [next]\<rparr>)] c
         else steps [(\<lambda>c. if next = CHR ''>'' then Inr (c\<lparr>blockquote_in_list := True\<rparr>)
                           else Inr c),
                     set_state UnorderedList] c)
      else steps
             [append_consumed [next],
              (\<lambda>c. if isdigit next then set_state DataConsumingNumber c
                    else steps [leave_list, upd state_from_pop, upd setup_list_parsing] c)] c)"

definition handleUnorderedList :: "char \<Rightarrow> action" where
  "handleUnorderedList next c =
     (if next = TAB \<or> next = CHR '' '' then
        (if counter c \<ge> indent_level c + INDENTATION
         then steps
                [upd (\<lambda>c. c\<lparr>indent_level := counter c, counter := 0\<rparr>),
                 emit_token OpenToken List_Unordered,
                 emit_token OpenToken List_Element,
                 set_state Data,
                 open_blockquote_in_list,
                 push_state UnorderedListPrep] c
         else steps
                [ascend_to_indent,
                 set_state Data,
                 emit_token OpenToken List_Element,
                 open_blockquote_in_list,
                 push_state UnorderedListPrep] c)
      else steps
             [move_up_loop (indent_level c - 1),
              upd (\<lambda>c. c\<lparr>consumed := [char_sum CHR ''-'' next], counter := 0\<rparr>),
              upd state_from_pop,
              upd (\<lambda>c. c\<lparr>indent_level := 0\<rparr>)] c)"

definition handleOrderedListPrep :: "char \<Rightarrow> action" where
  "handleOrderedListPrep next c =
     (if next = NL then steps [upd state_from_pop, leave_list, upd setup_list_parsing] c
      else if next = TAB then upd (\<lambda>c. c\<lparr>counter := to_short (counter c + INDENTATION)\<rparr>) c
      else if next = CHR '' '' then incr_counter c
      else if next = CHR ''+'' \<or> next = CHR ''*'' \<or> next = CHR ''-'' \<or> next = CHR ''>'' then
        (if counter c > indent_level c + INDENTATION
         then steps [leave_list, upd state_from_pop, upd setup_list_parsing,
                     upd (\<lambda>c. c\<lparr>consumed := [next]\<rparr>)] c
         else steps [(\<lambda>c. if next = CHR ''>'' then Inr (c\<lparr>blockquote_in_list := True\<rparr>)
                           else Inr c),
                     set_state UnorderedList] c)
      else if isdigit next then
        steps [append_consumed [next], set_state DataConsumingNumber] c
      else steps [leave_list, append_consumed [next], upd state_from_pop,
                  upd setup_list_parsing] c)"

definition handleImage :: "char \<Rightarrow> action" where
  "handleImage next c =
     (if next = CHR ''['' then set_state AltOpenSquared c
      else if next = NL then handle_unexpected_newline ''!'' (eof_reached c) c
      else steps [upd (\<lambda>c. c\<lparr>consumed := [char_sum CHR ''!'' next]\<rparr>), upd state_from_pop] c)"

text \<open>The literal text of a link that did not close; an image gets its \<open>!\<close> back.\<close>

definition bang :: "Context \<Rightarrow> string \<Rightarrow> string" where
  "bang c s = (if is_image c then CHR ''!'' # s else s)"

text \<open>In \<open>'[' + std::move(context.alt)\<close> the buffer \<open>alt\<close> is moved from; the standard
  leaves it valid but unspecified, and the common libraries leave it empty, which is what
  the two handlers below assume.\<close>

definition handleAltOpenSquared :: "char \<Rightarrow> action" where
  "handleAltOpenSquared next c =
     (if next = CHR '']'' then set_state AltClosedSquared c
      else if next = NL then
        steps [upd (\<lambda>c. c\<lparr>consumed := bang c (''['' @ alt c)\<rparr>),
               (\<lambda>c. handle_unexpected_newline (consumed c) (eof_reached c) c),
               upd (\<lambda>c. c\<lparr>alt := []\<rparr>)] c
      else if next = CHR ''|'' \<and> \<not> is_image c \<and> in_table c then
        steps [handle_pipe_in_table (''['' @ alt c) True o (\<lambda>c. c\<lparr>alt := []\<rparr>),
               upd (\<lambda>c. c\<lparr>alt := alt c @ [next]\<rparr>)] c
      else upd (\<lambda>c. c\<lparr>alt := alt c @ [next]\<rparr>) c)"

definition handleAltClosedSquared :: "char \<Rightarrow> action" where
  "handleAltClosedSquared next c =
     (if next = CHR ''('' then set_state UrlOpenRound c
      else if next = NL then
        steps [upd (\<lambda>c. c\<lparr>consumed := bang c (''['' @ alt c @ '']'' @ consumed c)\<rparr>),
               (\<lambda>c. handle_unexpected_newline (consumed c) (eof_reached c) c),
               upd (\<lambda>c. c\<lparr>alt := []\<rparr>)] c
      else if next = CHR ''|'' \<and> \<not> is_image c \<and> in_table c then
        (handle_pipe_in_table (''['' @ alt c @ '']'') True o (\<lambda>c. c\<lparr>alt := []\<rparr>)) c
      else steps [upd (\<lambda>c. c\<lparr>consumed := bang c (''['' @ alt c @ '']'' @ [next])\<rparr>),
                  upd state_from_pop,
                  upd (\<lambda>c. c\<lparr>alt := []\<rparr>)] c)"

definition emit_link :: action where
  "emit_link c = (if is_image c then emit_image c else emit_hyperlink c)"

definition handleUrlOpenRound :: "char \<Rightarrow> action" where
  "handleUrlOpenRound next c =
     (if next = CHR '')'' then steps [emit_link, upd state_from_pop] c
      else if next = CHR '' '' then set_state TitleOpenRound c
      else if next = NL then
        steps [upd (\<lambda>c. c\<lparr>consumed := bang c (''['' @ alt c @ '']('' @ consumed c)\<rparr>),
               (\<lambda>c. handle_unexpected_newline (consumed c) (eof_reached c) c),
               upd (\<lambda>c. c\<lparr>alt := [], src := []\<rparr>)] c
      else if next = CHR ''|'' \<and> \<not> is_image c \<and> in_table c then
        handle_pipe_in_table (''['' @ alt c @ ''[('') False c
      else upd (\<lambda>c. c\<lparr>src := src c @ [next]\<rparr>) c)"

definition handleTitleOpenRound :: "char \<Rightarrow> action" where
  "handleTitleOpenRound next c =
     (if next = DQUOTE then set_state TitleConsuming c
      else if next = NL then
        steps [upd (\<lambda>c. c\<lparr>consumed := bang c (''['' @ alt c @ '']('' @ src c @ '' '')\<rparr>),
               (\<lambda>c. handle_unexpected_newline (consumed c) (eof_reached c) c),
               upd (\<lambda>c. c\<lparr>alt := [], src := []\<rparr>)] c
      else if next = CHR ''|'' \<and> \<not> is_image c \<and> in_table c then
        handle_pipe_in_table (''['' @ alt c @ '']('' @ src c @ '' '') True c
      else steps
             [upd (\<lambda>c. c\<lparr>consumed := bang c (''['' @ alt c @ '']('' @ src c @ '' '' @ [next])\<rparr>),
              upd (\<lambda>c. c\<lparr>alt := [], src := []\<rparr>),
              upd state_from_pop] c)"

definition handleTitleConsuming :: "char \<Rightarrow> action" where
  "handleTitleConsuming next c =
     (if next = DQUOTE then set_state TitleClosedRound c
      else if next = NL then
        steps [upd (\<lambda>c. c\<lparr>consumed :=
                         bang c (''!['' @ alt c @ '']('' @ src c @ [CHR '' '', DQUOTE] @ consumed c)\<rparr>),
               (\<lambda>c. handle_unexpected_newline (consumed c) (eof_reached c) c),
               upd (\<lambda>c. c\<lparr>alt := [], src := []\<rparr>)] c
      else if next = CHR ''|'' \<and> \<not> is_image c \<and> in_table c then
        handle_pipe_in_table (''['' @ alt c @ '']('' @ src c @ [DQUOTE]) False c
      else append_consumed [next] c)"

definition handleTitleClosedRound :: "char \<Rightarrow> action" where
  "handleTitleClosedRound next c =
     (if next = CHR '')'' then steps [emit_link, upd state_from_pop] c
      else if next = NL then
        steps [upd (\<lambda>c. c\<lparr>consumed :=
                         bang c (''['' @ alt c @ '']('' @ src c @ [CHR '' '', DQUOTE]
                                 @ consumed c @ [DQUOTE])\<rparr>),
               (\<lambda>c. handle_unexpected_newline (consumed c) (eof_reached c) c),
               upd (\<lambda>c. c\<lparr>alt := [], src := []\<rparr>)] c
      else if next = CHR ''|'' \<and> \<not> is_image c \<and> in_table c then
        handle_pipe_in_table
          (''['' @ alt c @ '']('' @ src c @ [CHR '' '', DQUOTE] @ consumed c @ [DQUOTE]) False c
      else steps
             [upd (\<lambda>c. c\<lparr>consumed :=
                          ''!['' @ alt c @ '']('' @ src c @ [CHR '' '', DQUOTE] @ consumed c @ [next]\<rparr>),
              upd (\<lambda>c. c\<lparr>alt := [], src := []\<rparr>),
              upd state_from_pop] c)"

definition handleTableHeaderNames :: "char \<Rightarrow> action" where
  "handleTableHeaderNames next c =
     (if next = NL then
        (if consumed_only_whitespace c
         then steps [emit_token CloseToken Table_Head, emit_token CloseToken Table_Row,
                     upd (\<lambda>c. c\<lparr>state := TableHeaderSeparationPipeAwaiting, counter := 0\<rparr>)] c
         else steps [emit_token ContentToken Content, handle_flag TableFailed,
                     upd state_from_pop] c)
      else if next = CHR ''|'' then
        steps [emit_token ContentToken Content, emit_token CloseToken Table_Head,
               emit_token OpenToken Table_Head] c
      else if next = CHR ''*'' then
        steps [emit_token ContentToken Content, set_state DataAsterisk,
               push_state TableHeaderNames] c
      else if next = BTICK then
        steps [emit_token ContentToken Content, set_state DataBacktick,
               push_state TableHeaderNames] c
      else if next = CHR ''['' then
        steps [emit_token ContentToken Content, set_state AltOpenSquared,
               push_state TableHeaderNames] c
      else append_consumed [next] c)"

text \<open>The failure exit of the two separator handlers.\<close>

definition fail_table_to_text :: action where
  "fail_table_to_text c =
     steps [handle_flag TableFailed, emit_content_token, upd state_from_pop] c"

definition handleTableHeaderSeparationPipeAwaiting :: "char \<Rightarrow> action" where
  "handleTableHeaderSeparationPipeAwaiting next c =
     (if next = NL then fail_table_to_text c
      else if next = CHR '' '' \<or> next = TAB then append_consumed [next] c
      else if next = CHR ''|'' then
        steps [append_consumed ''|'',
               upd (\<lambda>c. c\<lparr>counter := 0, alt_counter := 0, state := TableHeaderSeparation\<rparr>)] c
      else steps [append_consumed [next], fail_table_to_text] c)"

definition handleTableHeaderSeparation :: "char \<Rightarrow> action" where
  "handleTableHeaderSeparation next c =
     (if next = NL then
        (if tm_col_dims c = to_size_t (alt_counter c)
         then steps
                [upd (\<lambda>c. c\<lparr>alt_counter := 0, consumed := [], counter := 0,
                             state := TableCellPipeAwaiting\<rparr>),
                 emit_token OpenToken Table_Row,
                 (\<lambda>c. if eof_reached c then handle_flag TableFailed c else Inr c)] c
         else steps
                [upd (\<lambda>c. c\<lparr>alt_counter := 0, counter := 0\<rparr>),
                 emit_token ContentToken Content,
                 handle_flag TableFailed,
                 upd state_from_pop] c)
      else if next = CHR ''|'' then
        steps
          [upd (\<lambda>c. c\<lparr>alt_counter := to_short (alt_counter c + 1)\<rparr>),
           append_consumed ''|'',
           (\<lambda>c. if counter c < 3 then fail_table_to_text c
                 else Inr (c\<lparr>counter := 0\<rparr>))] c
      else if next = CHR '' '' \<or> next = TAB then append_consumed [next] c
      else if next = CHR ''-'' then steps [incr_counter, append_consumed ''-''] c
      else steps [append_consumed [next], fail_table_to_text] c)"

definition handleTableCellPipeAwaiting :: "char \<Rightarrow> action" where
  "handleTableCellPipeAwaiting next c =
     (if next = NL then steps [handle_flag TableFailed, upd state_from_pop] c
      else if next = CHR '' '' \<or> next = TAB then Inr c
      else if next = CHR ''|'' then
        steps [emit_token OpenToken Table_Cell, set_state TableCellData] c
      else steps [handle_flag TableFailed, upd state_from_pop, append_consumed [next]] c)"

definition handleTableCellData :: "char \<Rightarrow> action" where
  "handleTableCellData next c =
     (if next = NL then
        (if \<not> consumed_only_whitespace c
         then steps [emit_token ContentToken Content, handle_flag TableFailed,
                     upd state_from_pop] c
         else steps
                [emit_token CloseToken Table_Cell,
                 emit_token CloseToken Table_Row,
                 emit_token OpenToken Table_Row,
                 (\<lambda>c. if eof_reached c then handle_flag TableFailed c else Inr c),
                 upd (\<lambda>c. c\<lparr>state := TableCellPipeAwaiting, consumed := []\<rparr>)] c)
      else if next = CHR ''|'' then
        steps [emit_token ContentToken Content, emit_token CloseToken Table_Cell,
               emit_token OpenToken Table_Cell] c
      else if next = CHR ''*'' then
        steps [emit_token ContentToken Content, set_state DataAsterisk,
               push_state TableCellData] c
      else if next = BTICK then
        steps [emit_token ContentToken Content, set_state DataBacktick,
               push_state TableCellData] c
      else if next = CHR ''['' then
        steps [emit_token ContentToken Content, set_state AltOpenSquared,
               push_state TableCellData] c
      else append_consumed [next] c)"

text \<open>The table \<open>state_handlers\<close>: the handler of each state. The vector lists the states
  in the order of the enum, so the key found at index \<open>state\<close> is \<open>state\<close> and the
  driver's check of the key never fails.\<close>

definition state_handlers :: "State \<Rightarrow> char \<Rightarrow> action" where
  "state_handlers st =
     (case st of
        Data \<Rightarrow> handleData
      | DataHashtag \<Rightarrow> handleHashtag
      | DataAsterisk \<Rightarrow> handleDataAsterisk
      | DataAsteriskData \<Rightarrow> handleAsteriskData
      | DataDoubleAsterisk \<Rightarrow> handleDoubleAsterisk
      | DataDoubleAsteriskData \<Rightarrow> handleDataDoubleAsteriskData
      | DataTripleAsterisk \<Rightarrow> handleDataTripleAsterisk
      | DataTripleAsteriskData \<Rightarrow> handleDataTripleAsteriskData
      | DataConsumingNumber \<Rightarrow> handleDataConsumingNumber
      | DataOrdinalNumber \<Rightarrow> handleDataOrdinalNumber
      | HorizontalLine \<Rightarrow> handleHorizontalLine
      | DataBacktick \<Rightarrow> handleDataBacktick
      | DataDoubleBacktick \<Rightarrow> handleDataDoubleBacktick
      | CodeInline \<Rightarrow> handleCodeInlineState
      | CodeBlock \<Rightarrow> handleCodeBlock
      | UnorderedListPrep \<Rightarrow> handleUnorderedListPrep
      | UnorderedList \<Rightarrow> handleUnorderedList
      | OrderedListPrep \<Rightarrow> handleOrderedListPrep
      | Image \<Rightarrow> handleImage
      | AltOpenSquared \<Rightarrow> handleAltOpenSquared
      | AltClosedSquared \<Rightarrow> handleAltClosedSquared
      | UrlOpenRound \<Rightarrow> handleUrlOpenRound
      | TitleOpenRound \<Rightarrow> handleTitleOpenRound
      | TitleConsuming \<Rightarrow> handleTitleConsuming
      | TitleClosedRound \<Rightarrow> handleTitleClosedRound
      | TableHeaderNames \<Rightarrow> handleTableHeaderNames
      | TableHeaderSeparationPipeAwaiting \<Rightarrow> handleTableHeaderSeparationPipeAwaiting
      | TableHeaderSeparation \<Rightarrow> handleTableHeaderSeparation
      | TableCellPipeAwaiting \<Rightarrow> handleTableCellPipeAwaiting
      | TableCellData \<Rightarrow> handleTableCellData)"


section \<open>The driver (markdown_parser.hpp)\<close>

definition escaped_chars :: "char list" where
  "escaped_chars =
     [BSLASH, BTICK, CHR ''*'', CHR ''_'', CHR ''{'', CHR ''}'', CHR ''['', CHR '']'',
      CHR ''<'', CHR ''>'', CHR ''('', CHR '')'', CHR ''#'', CHR ''+'', CHR ''-'', CHR ''.'',
      CHR ''!'', CHR ''|'']"

definition is_escaped_char :: "char \<Rightarrow> bool" where
  "is_escaped_char ch = (ch \<in> set escaped_chars)"

text \<open>\<open>Md_Parser::handle_escape_sequence\<close>. In its second branch the argument
  \<open>EOF_Reached\<close> is the enumerator of \<open>ElementType\<close> (the parser has no member of that
  name), a nonzero value, so the flag passed is true. In the third branch
  \<open>'\\' + next\<close> is the sum of two characters.\<close>

definition handle_escape_sequence :: "char \<Rightarrow> action" where
  "handle_escape_sequence next c =
     (if is_escaped_char next then append_consumed [next] c
      else if next = NL then handle_unexpected_newline [BSLASH] True c
      else append_consumed [char_sum BSLASH next] c)"

text \<open>The context of a fresh parser after \<open>reset_context\<close>: the builder holds the
  \<open>DOCSTART\<close> root with the cursor on it, the table manager holds nothing.\<close>

definition initial_context :: Context where
  "initial_context =
     \<lparr>eof_reached = False, consumed = [], counter = 0, alt_counter = 0, indent_level = 0,
      newline_counter = 0, src = [], alt = [], blockquote_in_list = False,
      is_escaped = False, is_image = False, state = Data, warning_msg = [],
      return_stack = [],
      builder_root = GenericNode DOCSTART, builder_current = Some [],
      tm_table_root = None, tm_current = None, tm_col_dims = 0,
      table_parsing_flag = False\<rparr>"

text \<open>One pass through the body of \<open>while (true)\<close>, once \<open>next\<close> is read; the flag
  returned says whether the pass ended in \<open>break\<close>.\<close>

definition iteration :: "char \<Rightarrow> Context \<Rightarrow> (bool \<times> Context) result" where
  "iteration next c =
     (if is_escaped c then
        (case handle_escape_sequence next c of
           Inl e \<Rightarrow> Inl e
         | Inr c' \<Rightarrow> Inr (False, c'\<lparr>is_escaped := False\<rparr>))
      else if next = BSLASH \<and> state c \<noteq> CodeInline \<and> state c \<noteq> CodeBlock
                \<and> state c \<noteq> DataBacktick then
        Inr (False, c\<lparr>is_escaped := True\<rparr>)
      else
        (case state_handlers (state c) next c of
           Inl e \<Rightarrow> Inl e
         | Inr c' \<Rightarrow>
             (let c' = c'\<lparr>warning_msg := []\<rparr>
              in if eof_reached c' then Inr (True, c')
                 else if newline_counter c' \<noteq> 0 \<and> next \<noteq> NL
                 then Inr (False, c'\<lparr>newline_counter := 0\<rparr>)
                 else Inr (False, c'))))"

text \<open>The passes after the stream is exhausted: \<open>get()\<close> returns \<open>-1\<close> each time, the flag
  \<open>EOF_Reached\<close> is set and \<open>next\<close> is the injected newline. The loop is the source's
  \<open>while (true)\<close>; \<open>None\<close> stands for a run that never leaves it.\<close>

partial_function (option) eof_loop :: "Context \<Rightarrow> Context result option" where
  "eof_loop c =
     (case iteration NL (c\<lparr>eof_reached := True\<rparr>) of
        Inl e \<Rightarrow> Some (Inl e)
      | Inr (stop, c') \<Rightarrow> if stop then Some (Inr c') else eof_loop c')"

declare eof_loop.simps [code]

fun parse_loop :: "string \<Rightarrow> Context \<Rightarrow> Context result option" where
  "parse_loop [] c = eof_loop c"
| "parse_loop (ch # rest) c =
     (case iteration ch c of
        Inl e \<Rightarrow> Some (Inl e)
      | Inr (stop, c') \<Rightarrow> if stop then Some (Inr c') else parse_loop rest c')"

text \<open>\<open>run_parser\<close> is the context the loop of \<open>parse_document\<close> ends with, on the bytes
  of the stream; \<open>parse_document\<close> returns the builder's root out of it.\<close>

definition run_parser :: "string \<Rightarrow> Context result option" where
  "run_parser input = parse_loop input initial_context"

definition parse_document :: "string \<Rightarrow> Node result option" where
  "parse_document input =
     (case run_parser input of
        None \<Rightarrow> None
      | Some (Inl e) \<Rightarrow> Some (Inl e)
      | Some (Inr c) \<Rightarrow> Some (Inr (builder_root c)))"


section \<open>Observations on trees and inputs\<close>

text \<open>The text of the Content leaves of a tree, in order, and the elements of its nodes.\<close>

fun leaf_text :: "Node \<Rightarrow> string" where
  "leaf_text (Node e a cs p) =
     (case p of ContentText s \<Rightarrow> s | _ \<Rightarrow> []) @ concat (map leaf_text cs)"

fun elements_of :: "Node \<Rightarrow> ElementType list" where
  "elements_of (Node e a cs p) = e # concat (map elements_of cs)"

text \<open>The characters \<open>handleData\<close> and the driver single out: each of them starts a
  construct or an escape.\<close>

definition sigil :: "char \<Rightarrow> bool" where
  "sigil ch =
     (ch \<in> set [CHR ''#'', CHR ''*'', CHR ''-'', BTICK, CHR ''>'', CHR ''['', CHR ''!'',
                 CHR ''|'', BSLASH])"

text \<open>Where a character stands in its line: at the start, behind a digit that started
  the line, behind such a digit and a full stop, or further in. The parser reads the
  first in \<open>Data\<close> with an empty buffer, the second in \<open>DataConsumingNumber\<close>, the third
  in \<open>DataOrdinalNumber\<close>, the last in \<open>Data\<close> with text in the buffer.\<close>

datatype line_pos = LineStart | AfterDigit | AfterDigitDot | InLine

definition next_pos :: "line_pos \<Rightarrow> char \<Rightarrow> line_pos" where
  "next_pos pos ch =
     (case pos of
        LineStart \<Rightarrow> if isdigit ch then AfterDigit else InLine
      | AfterDigit \<Rightarrow> if ch = CHR ''.'' then AfterDigitDot else InLine
      | AfterDigitDot \<Rightarrow> InLine
      | InLine \<Rightarrow> InLine)"

text \<open>Plain text: ASCII characters without sigils, in lines none of which is one digit or
  one digit and a full stop, and none of which starts with the marker of an ordered list,
  a digit, a full stop and a space. The end of the input ends a line as a newline does.\<close>

fun plain_text :: "line_pos \<Rightarrow> string \<Rightarrow> bool" where
  "plain_text pos [] = (pos = LineStart \<or> pos = InLine)"
| "plain_text pos (ch # rest) =
     (if ch = NL then (pos = LineStart \<or> pos = InLine) \<and> plain_text LineStart rest
      else (of_char ch :: nat) < 128 \<and> \<not> sigil ch
           \<and> \<not> (pos = AfterDigitDot \<and> ch = CHR '' '')
           \<and> plain_text (next_pos pos ch) rest)"

definition trim_trailing_newlines :: "string \<Rightarrow> string" where
  "trim_trailing_newlines s = rev (dropWhile (\<lambda>ch. ch = NL) (rev s))"

text \<open>The text a context holds: the leaves already in the tree, then the pending buffer.\<close>

definition text_so_far :: "Context \<Rightarrow> string" where
  "text_so_far c = leaf_text (builder_root c) @ consumed c"

text \<open>The contexts the parser passes through on plain text, by the position in the line:
  no table, the cursor on the root or in the last paragraph under it, and the state and
  buffer of the position; in the two number states \<open>Data\<close> is on top of the return stack.\<close>

definition plain_inv :: "line_pos \<Rightarrow> Context \<Rightarrow> bool" where
  "plain_inv pos c =
     (\<not> is_escaped c \<and> \<not> table_parsing_flag c
      \<and> ((\<exists>ps. builder_root c = Node DOCSTART [] ps Generic \<and> builder_current c = Some [])
         \<or> (\<exists>qs ls. builder_root c
                       = Node DOCSTART [] (qs @ [Node Paragraph [] ls Generic]) Generic
                    \<and> builder_current c = Some [length qs]))
      \<and> (case pos of
            LineStart \<Rightarrow> state c = Data \<and> consumed c = []
          | InLine \<Rightarrow> state c = Data \<and> consumed c \<noteq> []
          | AfterDigit \<Rightarrow>
              state c = DataConsumingNumber \<and> (\<exists>rest. return_stack c = Data # rest)
          | AfterDigitDot \<Rightarrow>
              state c = DataOrdinalNumber \<and> (\<exists>rest. return_stack c = Data # rest)))"

text \<open>Two table-manager states: the cursor inside a hyperlink of a body cell (as after the
  Open token of \<open>emit_hyperlink\<close>), and the cursor on a body row that already holds
  \<open>col_dims\<close> cells (as after the Open of a surplus cell was skipped).\<close>

definition link_in_cell :: Context where
  "link_in_cell =
     initial_context
       \<lparr>tm_table_root :=
          Some (Node Table [TableStyle]
                  [Node Table_Row [TableRow]
                     [Node Table_Cell [TableCell]
                        [Node Hypertext [] [] (HyperlinkData ''u'' ''t'' [])] Generic]
                     Generic]
                  Generic),
        tm_current := Some [0, 0, 0], tm_col_dims := 1, table_parsing_flag := True\<rparr>"

definition full_row :: Context where
  "full_row =
     initial_context
       \<lparr>tm_table_root :=
          Some (Node Table [TableStyle]
                  [Node Table_Row [TableRow]
                     [Node Table_Cell [TableCell]
                        [Node Content [] [] (ContentText ''1'')] Generic]
                     Generic]
                  Generic),
        tm_current := Some [0], tm_col_dims := 1, table_parsing_flag := True\<rparr>"

section \<open>The return-state stack\<close>

text \<open>Claim C9. \<open>push\<close> accepts exactly the states \<open>Data\<close>, \<open>UnorderedListPrep\<close>,
  \<open>OrderedListPrep\<close>, \<open>TableHeaderNames\<close> and \<open>TableCellData\<close>, and fails with
  \<open>InternalStateError\<close> for every other state; \<open>top\<close> and \<open>top_n_pop\<close> on an empty stack
  return \<open>Data\<close>, leave the stack empty and hand one warning to the logger instead of
  failing.\<close>

theorem return_stack_accepts_exactly_return_states:
  "(st \<in> {Data, UnorderedListPrep, OrderedListPrep, TableHeaderNames, TableCellData}
      \<longrightarrow> push st stack = Inr (st # stack))
   \<and> (st \<notin> {Data, UnorderedListPrep, OrderedListPrep, TableHeaderNames, TableCellData}
      \<longrightarrow> push st stack = Inl InternalStateError)
   \<and> top [] = (Data, [''Topping an empty stack. Returning State::Data instead.''])
   \<and> top_n_pop [] =
       ((Data, []), [''Popping an empty stack. Returning State::Data instead.''])"
  by (cases st) (simp_all add: push_def top_def top_n_pop_def is_a_return_state_def
        allowed_return_states_def)

text \<open>Claim C9 at a return state and at a state that is none.\<close>

theorem return_stack_accepts_exactly_return_states_witness:
  "push TableCellData [Data] = Inr [TableCellData, Data]
   \<and> push CodeBlock [Data] = Inl InternalStateError
   \<and> fst (top []) = Data \<and> fst (fst (top_n_pop [])) = Data"
  using return_stack_accepts_exactly_return_states [of TableCellData "[Data]"]
        return_stack_accepts_exactly_return_states [of CodeBlock "[Data]"]
  by simp

section \<open>Escape handling\<close>

lemma handle_escape_sequence_other:
  "\<not> is_escaped_char ch \<Longrightarrow> ch \<noteq> NL \<Longrightarrow>
   handle_escape_sequence ch c = Inr (c\<lparr>consumed := consumed c @ [char_sum BSLASH ch]\<rparr>)"
  by (simp add: handle_escape_sequence_def append_consumed_def)

text \<open>Claim C7 says that a backslash before a character that is neither escapable nor a
  newline puts the backslash and the character into the buffer. The code appends
  \<open>'\\' + next\<close>, one character: after a backslash, \<open>a\<close> (97) becomes the single byte
  \<open>0xBD\<close> (92 + 97 = 189), in the buffer and in the tree.\<close>

theorem escape_of_plain_letter_appends_one_byte:
  "handle_escape_sequence CHR ''a'' initial_context
     = Inr (initial_context\<lparr>consumed := [CHR 0xBD]\<rparr>)
   \<and> parse_document [BSLASH, CHR ''a'']
     = Some (Inr (Node DOCSTART []
                    [Node Paragraph [] [Node Content [] [] (ContentText [CHR 0xBD])] Generic]
                    Generic))"
  by code_simp

text \<open>Claim C8. For every character \<open>ch\<close> of the escapable set, the document \<open>\\ch\<close>
  parses to the tree a plain character gives: one Content leaf with the text \<open>ch\<close> in
  the paragraph opened for it, no attribute on any node and no other element.\<close>

theorem escaped_char_is_plain_content:
  assumes "is_escaped_char ch"
  shows "parse_document [BSLASH, ch]
           = Some (Inr (Node DOCSTART []
                          [Node Paragraph [] [Node Content [] [] (ContentText [ch])] Generic]
                          Generic))"
proof -
  from assms have
    "ch = BSLASH \<or> ch = BTICK \<or> ch = CHR ''*'' \<or> ch = CHR ''_'' \<or> ch = CHR ''{''
     \<or> ch = CHR ''}'' \<or> ch = CHR ''['' \<or> ch = CHR '']'' \<or> ch = CHR ''<'' \<or> ch = CHR ''>''
     \<or> ch = CHR ''('' \<or> ch = CHR '')'' \<or> ch = CHR ''#'' \<or> ch = CHR ''+'' \<or> ch = CHR ''-''
     \<or> ch = CHR ''.'' \<or> ch = CHR ''!'' \<or> ch = CHR ''|''"
    by (simp add: is_escaped_char_def escaped_chars_def)
  then show ?thesis
    by (elim disjE) (hypsubst, code_simp)+
qed

text \<open>Claim C8 at the asterisk.\<close>

theorem escaped_char_is_plain_content_witness:
  "is_escaped_char CHR ''*''
   \<and> parse_document [BSLASH, CHR ''*'']
       = Some (Inr (Node DOCSTART []
                      [Node Paragraph [] [Node Content [] [] (ContentText ''*'')] Generic]
                      Generic))"
proof -
  have h: "is_escaped_char CHR ''*''"
    by (simp add: is_escaped_char_def escaped_chars_def)
  from escaped_char_is_plain_content [OF h] h show ?thesis by simp
qed


section \<open>Emphasis at the start of a line\<close>

text \<open>Claim C4, as amended. The document \<open>**bold** tail\<close> with its newline parses to
  \<open>DocStart[Span{Bold}["bold"], Paragraph[" tail"]]\<close>: the bold span is closed while the
  cursor is on the root, so it is a child of \<open>DocStart\<close>; the paragraph is opened only
  for the text that follows and holds the leaf \<open>" tail"\<close> alone.\<close>

theorem bold_span_precedes_paragraph:
  "parse_document (''**bold** tail'' @ [NL])
     = Some (Inr (Node DOCSTART []
                    [Node Span [Bold] [Node Content [] [] (ContentText ''bold'')] Generic,
                     Node Paragraph [] [Node Content [] [] (ContentText '' tail'')] Generic]
                    Generic))"
  by code_simp

text \<open>Claim C4 as stated fails: the result is not the tree
  \<open>DocStart[Paragraph[Span{Bold}["bold"], " tail"]]\<close>.\<close>

theorem bold_span_not_in_paragraph:
  "parse_document (''**bold** tail'' @ [NL])
     \<noteq> Some (Inr (Node DOCSTART []
                    [Node Paragraph []
                       [Node Span [Bold] [Node Content [] [] (ContentText ''bold'')] Generic,
                        Node Content [] [] (ContentText '' tail'')]
                       Generic]
                    Generic))"
  by code_simp

section \<open>Tables\<close>

text \<open>Claim C2, as amended. With three dashes in each column of the separator row, the
  document \<open>|A|B|\<close>, \<open>|---|---|\<close>, \<open>|1|2|\<close> parses to the table of the claim: a \<open>Table\<close>
  with \<open>TableStyle\<close>, a header row of two \<open>TableHead\<close> cells and a body row of two
  \<open>TableCell\<close> cells. With one dash per column the separator fails its test of three
  dashes, and the tree has no \<open>Table\<close> node.\<close>

theorem table_with_three_dash_separator:
  "parse_document (''|A|B|'' @ [NL] @ ''|---|---|'' @ [NL] @ ''|1|2|'' @ [NL])
     = Some (Inr (Node DOCSTART []
          [Node Table [TableStyle]
             [Node Table_Row [TableRow]
                [Node Table_Head [TableHeader] [Node Content [] [] (ContentText ''A'')] Generic,
                 Node Table_Head [TableHeader] [Node Content [] [] (ContentText ''B'')] Generic]
                Generic,
              Node Table_Row [TableRow]
                [Node Table_Cell [TableCell] [Node Content [] [] (ContentText ''1'')] Generic,
                 Node Table_Cell [TableCell] [Node Content [] [] (ContentText ''2'')] Generic]
                Generic]
             Generic]
          Generic))
   \<and> (case parse_document (''|A|B|'' @ [NL] @ ''|-|-|'' @ [NL] @ ''|1|2|'' @ [NL]) of
         Some (Inr t) \<Rightarrow> Table \<notin> set (elements_of t)
       | _ \<Rightarrow> False)"
  by code_simp

text \<open>Claim C2 as stated fails: with one dash per column the result is not the table.\<close>

theorem one_dash_separator_gives_no_table:
  "parse_document (''|A|B|'' @ [NL] @ ''|-|-|'' @ [NL] @ ''|1|2|'' @ [NL])
     \<noteq> Some (Inr (Node DOCSTART []
          [Node Table [TableStyle]
             [Node Table_Row [TableRow]
                [Node Table_Head [TableHeader] [Node Content [] [] (ContentText ''A'')] Generic,
                 Node Table_Head [TableHeader] [Node Content [] [] (ContentText ''B'')] Generic]
                Generic,
              Node Table_Row [TableRow]
                [Node Table_Cell [TableCell] [Node Content [] [] (ContentText ''1'')] Generic,
                 Node Table_Cell [TableCell] [Node Content [] [] (ContentText ''2'')] Generic]
                Generic]
             Generic]
          Generic))"
  by code_simp

text \<open>Claim C3, as amended. The document \<open>|A|B|\<close>, \<open>|--|\<close> parses to a \<open>DocStart\<close> with
  two children and no \<open>Table\<close>: the failed header row, re-emitted as a paragraph whose
  children are \<open>"|"\<close>, \<open>"A"\<close>, \<open>"|"\<close>, \<open>"B"\<close>, and after it a paragraph with the text of the
  separator line read so far, \<open>"|--|"\<close>.\<close>

theorem failed_table_row_and_separator_text:
  "parse_document (''|A|B|'' @ [NL] @ ''|--|'' @ [NL])
     = Some (Inr (Node DOCSTART []
          [Node Paragraph [TableRow]
             [Node Content [] [] (ContentText ''|''),
              Node Content [] [] (ContentText ''A''),
              Node Content [] [] (ContentText ''|''),
              Node Content [] [] (ContentText ''B'')]
             Generic,
           Node Paragraph [] [Node Content [] [] (ContentText ''|--|'')] Generic]
          Generic))"
  by code_simp

text \<open>Claim C3 as stated fails: the tree is not \<open>DocStart\<close> with the one paragraph, whether
  that paragraph keeps the attribute of the row or has none.\<close>

theorem failed_table_is_not_one_paragraph:
  "parse_document (''|A|B|'' @ [NL] @ ''|--|'' @ [NL])
     \<noteq> Some (Inr (Node DOCSTART []
          [Node Paragraph []
             [Node Content [] [] (ContentText ''|''),
              Node Content [] [] (ContentText ''A''),
              Node Content [] [] (ContentText ''|''),
              Node Content [] [] (ContentText ''B'')]
             Generic]
          Generic))
   \<and> parse_document (''|A|B|'' @ [NL] @ ''|--|'' @ [NL])
     \<noteq> Some (Inr (Node DOCSTART []
          [Node Paragraph [TableRow]
             [Node Content [] [] (ContentText ''|''),
              Node Content [] [] (ContentText ''A''),
              Node Content [] [] (ContentText ''|''),
              Node Content [] [] (ContentText ''B'')]
             Generic]
          Generic))"
  by code_simp

section \<open>The cursor at the end of a parse\<close>

text \<open>Claim C5 says that the builder's cursor is the root when \<open>parse_document\<close> finishes.
  On the document \<open>a\<close> the run ends with the cursor on the paragraph, the first child of
  the root: \<open>handleData\<close> opens the paragraph on the injected newline and nothing closes
  it.\<close>

theorem cursor_left_in_paragraph:
  "(case run_parser ''a'' of
      Some (Inr c) \<Rightarrow> builder_current c = Some [0] \<and> builder_current c \<noteq> Some []
    | _ \<Rightarrow> False)"
  by code_simp

section \<open>Headings\<close>

lemma headings_one_to_six:
  "parse_document (''# x'' @ [NL])
     = Some (Inr (Node DOCSTART []
         [Node Header_1 [Bold, FontSize1] [Node Content [] [] (ContentText ''x'')] Generic]
         Generic))"
  "parse_document (''## x'' @ [NL])
     = Some (Inr (Node DOCSTART []
         [Node Header_2 [Bold, FontSize2] [Node Content [] [] (ContentText ''x'')] Generic]
         Generic))"
  "parse_document (''### x'' @ [NL])
     = Some (Inr (Node DOCSTART []
         [Node Header_3 [Bold, FontSize3] [Node Content [] [] (ContentText ''x'')] Generic]
         Generic))"
  "parse_document (''#### x'' @ [NL])
     = Some (Inr (Node DOCSTART []
         [Node Header_4 [Bold, FontSize4] [Node Content [] [] (ContentText ''x'')] Generic]
         Generic))"
  "parse_document (''##### x'' @ [NL])
     = Some (Inr (Node DOCSTART []
         [Node Header_5 [Bold, FontSize5] [Node Content [] [] (ContentText ''x'')] Generic]
         Generic))"
  "parse_document (''###### x'' @ [NL])
     = Some (Inr (Node DOCSTART []
         [Node Header_6 [Bold, FontSize6] [Node Content [] [] (ContentText ''x'')] Generic]
         Generic))"
  by code_simp+

text \<open>Claim C6 says that a line of \<open>k \<ge> 7\<close> hashes, a space and text gives a paragraph
  whose text begins with \<open>k\<close> hashes. \<open>handleHashtag\<close> puts the six hashes it counted back
  into the buffer and drops the seventh, the character it is looking at: seven hashes
  give a paragraph that begins with six, eight hashes one that begins with seven.\<close>

theorem seven_hashes_give_six:
  "parse_document (''####### x'' @ [NL])
     = Some (Inr (Node DOCSTART []
         [Node Paragraph [] [Node Content [] [] (ContentText ''###### x'')] Generic]
         Generic))
   \<and> parse_document (''######## x'' @ [NL])
     = Some (Inr (Node DOCSTART []
         [Node Paragraph [] [Node Content [] [] (ContentText ''####### x'')] Generic]
         Generic))"
  by code_simp


section \<open>Close tokens in the table manager\<close>

lemma get_node_butlast:
  "get_node r p = Some n \<Longrightarrow> \<exists>m. get_node r (butlast p) = Some m"
proof (induction p arbitrary: r)
  case Nil
  then show ?case by simp
next
  case (Cons i q)
  show ?case
  proof (cases q)
    case Nil
    then show ?thesis by simp
  next
    case (Cons a rest)
    from Cons.prems have i: "i < length (children r)"
      and g: "get_node (children r ! i) q = Some n"
      by (auto split: if_splits)
    from Cons.IH [OF g] obtain m where "get_node (children r ! i) (butlast q) = Some m" ..
    with i Cons show ?thesis by simp
  qed
qed

lemma tm_deref_parent:
  assumes "tm_deref c = Some (p, cur)" and "p \<noteq> []"
  shows "\<exists>m. tm_deref (c\<lparr>tm_current := parent p\<rparr>) = Some (butlast p, m)"
proof -
  from assms(1) obtain r where r: "tm_table_root c = Some r" "tm_current c = Some p"
      "get_node r p = Some cur"
    by (auto simp: tm_deref_def deref_def split: option.splits)
  from get_node_butlast [OF r(3)] obtain m where "get_node r (butlast p) = Some m" ..
  with r assms(2) show ?thesis
    by (simp add: tm_deref_def deref_def parent_def)
qed

lemma tm_ascend_cursor:
  "tm_deref c = Some (p, cur) \<Longrightarrow> tm_ascend c = Inr (c\<lparr>tm_current := parent p\<rparr>)"
  by (simp add: tm_ascend_def)

lemma tm_modify_cursor:
  "tm_deref c = Some (p, cur) \<Longrightarrow> tm_modify f mv c = Inr c' \<Longrightarrow> tm_current c' = mv p cur"
  by (auto simp: tm_modify_def split: option.splits)

text \<open>Claim C10, as amended. Let the table manager's cursor point to a node at path \<open>p\<close>.
  A Close token for \<open>Hypertext\<close> moves the cursor two levels up, to the parent of the
  parent (null when the parent is the table's root), provided the cursor is not on the
  root itself. A Close token for \<open>Table_Head\<close>, \<open>Span\<close> or \<open>Codeblock\<close> moves it one level
  up, and so does one for \<open>Table_Row\<close> whenever it is accepted. A Close token for
  \<open>Table_Cell\<close> moves it one level up when the cursor is on a \<open>Table_Cell\<close> node and leaves
  it in place otherwise.\<close>

theorem hyperlink_close_ascends_two_levels:
  assumes "tm_deref c = Some (p, cur)"
  shows "(p \<noteq> [] \<longrightarrow>
            table_consume_token (Token CloseToken Hypertext x y z) c
              = Inr (c\<lparr>tm_current := parent (butlast p)\<rparr>))
       \<and> (el \<in> {Table_Head, Span, Codeblock} \<longrightarrow>
            table_consume_token (Token CloseToken el x y z) c
              = Inr (c\<lparr>tm_current := parent p\<rparr>))
       \<and> (\<forall>c'. table_consume_token (Token CloseToken Table_Row x y z) c = Inr c'
                 \<longrightarrow> tm_current c' = parent p)
       \<and> table_consume_token (Token CloseToken Table_Cell x y z) c
            = Inr (c\<lparr>tm_current := (if element cur = Table_Cell then parent p else Some p)\<rparr>)"
proof (intro conjI impI allI)
  assume ne: "p \<noteq> []"
  from tm_deref_parent [OF assms ne] obtain m
    where m: "tm_deref (c\<lparr>tm_current := parent p\<rparr>) = Some (butlast p, m)" ..
  show "table_consume_token (Token CloseToken Hypertext x y z) c
          = Inr (c\<lparr>tm_current := parent (butlast p)\<rparr>)"
    by (simp add: table_consume_token_def tm_ascend_cursor [OF assms] tm_ascend_cursor [OF m])
next
  assume "el \<in> {Table_Head, Span, Codeblock}"
  then show "table_consume_token (Token CloseToken el x y z) c
               = Inr (c\<lparr>tm_current := parent p\<rparr>)"
    by (auto simp: table_consume_token_def tm_ascend_cursor [OF assms])
next
  fix c' assume run: "table_consume_token (Token CloseToken Table_Row x y z) c = Inr c'"
  show "tm_current c' = parent p"
  proof (cases "tm_col_dims c \<noteq> 0")
    case True
    with run have "tm_modify (pad_row (tm_col_dims c)) (\<lambda>p cur. parent p) c = Inr c'"
      by (simp add: table_consume_token_def)
    from tm_modify_cursor [OF assms this] show ?thesis .
  next
    case False
    let ?c = "c\<lparr>tm_col_dims := length (children cur) - 1\<rparr>"
    have d: "tm_deref ?c = Some (p, cur)"
      using assms by (simp add: tm_deref_def)
    from False run assms
    have "tm_modify (\<lambda>n. set_children (butlast (children n)) n) (\<lambda>p cur. parent p) ?c = Inr c'"
      by (auto simp: table_consume_token_def upd_def split: if_splits sum.splits)
    from tm_modify_cursor [OF d this] show ?thesis .
  qed
next
  have "c\<lparr>tm_current := Some p\<rparr> = c"
    using assms by (auto simp: tm_deref_def deref_def split: option.splits)
  then show "table_consume_token (Token CloseToken Table_Cell x y z) c
      = Inr (c\<lparr>tm_current := (if element cur = Table_Cell then parent p else Some p)\<rparr>)"
    using assms by (simp add: table_consume_token_def tm_ascend_cursor [OF assms])
qed

text \<open>Claim C10 at a hyperlink in a body cell: the Close token of the hyperlink leaves the
  cursor on the row, the parent of the cell that holds the link.\<close>

theorem hyperlink_close_ascends_two_levels_witness:
  "tm_deref link_in_cell = Some ([0, 0, 0], Node Hypertext [] [] (HyperlinkData ''u'' ''t'' []))
   \<and> table_consume_token (Token CloseToken Hypertext [] [] []) link_in_cell
       = Inr (link_in_cell\<lparr>tm_current := Some [0]\<rparr>)
   \<and> table_consume_token (Token CloseToken Span [] [] []) link_in_cell
       = Inr (link_in_cell\<lparr>tm_current := Some [0, 0]\<rparr>)"
proof -
  have h: "tm_deref link_in_cell
             = Some ([0, 0, 0], Node Hypertext [] [] (HyperlinkData ''u'' ''t'' []))"
    by (simp add: tm_deref_def deref_def link_in_cell_def)
  from hyperlink_close_ascends_two_levels
         [OF h, where el = Span and x = "[]" and y = "[]" and z = "[]"] h
  show ?thesis by (simp add: parent_def)
qed

text \<open>Claim C10 as stated fails for the Close token of a table cell: on a row that is
  full the cursor stays on the row, it does not move to the row's parent.\<close>

theorem cell_close_on_row_keeps_cursor:
  "table_consume_token (Token CloseToken Table_Cell [] [] []) full_row = Inr full_row
   \<and> tm_current full_row = Some [0]
   \<and> parent [0] \<noteq> Some [0]"
  by (simp add: table_consume_token_def tm_deref_def deref_def full_row_def parent_def)

text \<open>The double ascent in a run: after the link of a body cell the cursor is on the row,
  where Content tokens are discarded, so the text \<open>x\<close> behind the link is in no leaf.\<close>

lemma text_after_link_in_cell_is_dropped:
  "parse_document (''|h|'' @ [NL] @ ''|---|'' @ [NL] @ ''|[t](u)x|'' @ [NL])
     = Some (Inr (Node DOCSTART []
          [Node Table [TableStyle]
             [Node Table_Row [TableRow]
                [Node Table_Head [TableHeader] [Node Content [] [] (ContentText ''h'')] Generic]
                Generic,
              Node Table_Row [TableRow]
                [Node Table_Cell [TableCell]
                   [Node Content [] [] (ContentText []),
                    Node Hypertext [] [] (HyperlinkData ''u'' ''t'' [])]
                   Generic]
                Generic]
             Generic]
          Generic))"
  by code_simp

section \<open>Plain text\<close>

lemmas plain_defs =
  iteration_def state_handlers_def handleData_def handleDataConsumingNumber_def
  handleDataOrdinalNumber_def emit_content_token_def emit_token_def
  emitter_emit_token_def builder_consume_token_def builder_attach_def builder_deref_def
  deref_def get_current_element_def append_consumed_def add_child_def GenericNode_def
  ContentNode_def parent_def set_children_def text_so_far_def Let_def
  push_state_def push_def is_a_return_state_def allowed_return_states_def
  state_from_pop_def top_n_pop_def set_state_def upd_def

lemma plain_char_step:
  assumes "plain_inv pos c" "\<not> eof_reached c" "\<not> sigil ch" "ch \<noteq> NL"
    "\<not> (pos = AfterDigitDot \<and> ch = CHR '' '')"
  shows "\<exists>c'. iteration ch c = Inr (False, c') \<and> plain_inv (next_pos pos ch) c'
           \<and> \<not> eof_reached c' \<and> text_so_far c' = text_so_far c @ [ch]"
proof (cases pos)
  case LineStart
  with assms show ?thesis
    by (cases "isdigit ch") (auto simp: plain_inv_def next_pos_def sigil_def plain_defs)
next
  case AfterDigit
  with assms show ?thesis
    by (auto simp: plain_inv_def next_pos_def sigil_def plain_defs)
next
  case AfterDigitDot
  with assms show ?thesis
    by (auto simp: plain_inv_def next_pos_def sigil_def plain_defs)
next
  case InLine
  with assms show ?thesis
    by (auto simp: plain_inv_def next_pos_def sigil_def plain_defs)
qed

lemma newline_step:
  assumes "plain_inv pos c" "pos = LineStart \<or> pos = InLine"
  shows "\<exists>c'. iteration NL c = Inr (eof_reached c, c') \<and> plain_inv LineStart c'
           \<and> eof_reached c' = eof_reached c \<and> text_so_far c' = text_so_far c"
proof -
  from assms have ctl: "state c = Data" "\<not> is_escaped c" "\<not> table_parsing_flag c"
    by (auto simp: plain_inv_def)
  from assms(1) consider
      (root) ps where "builder_root c = Node DOCSTART [] ps Generic" "builder_current c = Some []"
    | (para) qs ls where
        "builder_root c = Node DOCSTART [] (qs @ [Node Paragraph [] ls Generic]) Generic"
        "builder_current c = Some [length qs]"
    by (auto simp: plain_inv_def)
  then show ?thesis
  proof cases
    case root
    show ?thesis
    proof (cases "consumed c = []")
      case True
      with root ctl show ?thesis
        by (simp add: plain_inv_def plain_defs)
    next
      case False
      with root ctl show ?thesis
        by (simp add: plain_inv_def plain_defs)
    qed
  next
    case para
    show ?thesis
    proof (cases "consumed c = []")
      case True
      with para ctl show ?thesis
        by (cases "newline_counter c = 1") (simp_all add: plain_inv_def plain_defs)
    next
      case False
      with para ctl show ?thesis
        by (cases "newline_counter c = 1") (simp_all add: plain_inv_def plain_defs)
    qed
  qed
qed

lemma eof_loop_plain:
  assumes "plain_inv pos c" "pos = LineStart \<or> pos = InLine"
  shows "\<exists>c'. eof_loop c = Some (Inr c') \<and> leaf_text (builder_root c') = text_so_far c"
proof -
  let ?c = "c\<lparr>eof_reached := True\<rparr>"
  have inv: "plain_inv pos ?c"
    using assms(1) by (cases pos) (simp_all add: plain_inv_def)
  from newline_step [OF inv assms(2)] obtain c' where
    c': "iteration NL ?c = Inr (True, c')" "text_so_far c' = text_so_far ?c"
        "plain_inv LineStart c'"
    by auto
  have "eof_loop c = Some (Inr c')"
    by (subst eof_loop.simps) (simp add: c'(1))
  moreover have "leaf_text (builder_root c') = text_so_far c"
    using c'(2,3) by (simp add: text_so_far_def plain_inv_def)
  ultimately show ?thesis by blast
qed

lemma parse_loop_plain:
  assumes "plain_text pos input" "plain_inv pos c" "\<not> eof_reached c"
  shows "\<exists>c'. parse_loop input c = Some (Inr c')
           \<and> leaf_text (builder_root c') = text_so_far c @ filter (\<lambda>ch. ch \<noteq> NL) input"
  using assms
proof (induction input arbitrary: c pos)
  case Nil
  from Nil.prems(1) have "pos = LineStart \<or> pos = InLine" by simp
  from eof_loop_plain [OF Nil.prems(2) this] show ?case by simp
next
  case (Cons ch rest)
  show ?case
  proof (cases "ch = NL")
    case True
    with Cons.prems(1) have ends: "pos = LineStart \<or> pos = InLine"
      and rest: "plain_text LineStart rest"
      by simp_all
    from newline_step [OF Cons.prems(2) ends] Cons.prems(3) obtain c1 where
      c1: "iteration NL c = Inr (False, c1)" "plain_inv LineStart c1" "\<not> eof_reached c1"
          "text_so_far c1 = text_so_far c"
      by auto
    from Cons.IH [OF rest c1(2,3)] obtain c' where
      "parse_loop rest c1 = Some (Inr c')"
      "leaf_text (builder_root c') = text_so_far c1 @ filter (\<lambda>ch. ch \<noteq> NL) rest"
      by blast
    with True c1(1,4) show ?thesis by simp
  next
    case False
    with Cons.prems(1) have ch: "\<not> sigil ch" "\<not> (pos = AfterDigitDot \<and> ch = CHR '' '')"
      and rest: "plain_text (next_pos pos ch) rest"
      by simp_all
    from plain_char_step [OF Cons.prems(2,3) ch(1) False ch(2)] obtain c1 where
      c1: "iteration ch c = Inr (False, c1)" "plain_inv (next_pos pos ch) c1"
          "\<not> eof_reached c1" "text_so_far c1 = text_so_far c @ [ch]"
      by blast
    from Cons.IH [OF rest c1(2,3)] obtain c' where
      "parse_loop rest c1 = Some (Inr c')"
      "leaf_text (builder_root c') = text_so_far c1 @ filter (\<lambda>ch. ch \<noteq> NL) rest"
      by blast
    with False c1(1,4) show ?thesis by simp
  qed
qed

lemma filter_newlines_trim:
  assumes "NL \<notin> set (trim_trailing_newlines s)"
  shows "filter (\<lambda>ch. ch \<noteq> NL) s = trim_trailing_newlines s"
proof -
  let ?P = "\<lambda>ch. ch = NL"
  have split: "s = rev (dropWhile ?P (rev s)) @ rev (takeWhile ?P (rev s))"
    by (metis rev_append rev_rev_ident takeWhile_dropWhile_id)
  have a: "filter (\<lambda>ch. ch \<noteq> NL) (rev (takeWhile ?P (rev s))) = []"
    by (auto simp: filter_empty_conv dest: set_takeWhileD)
  have b: "filter (\<lambda>ch. ch \<noteq> NL) (rev (dropWhile ?P (rev s))) = rev (dropWhile ?P (rev s))"
    using assms by (auto simp: trim_trailing_newlines_def filter_id_conv)
  have "filter (\<lambda>ch. ch \<noteq> NL) s
          = filter (\<lambda>ch. ch \<noteq> NL) (rev (dropWhile ?P (rev s)) @ rev (takeWhile ?P (rev s)))"
    using split by simp
  also have "\<dots> = rev (dropWhile ?P (rev s))"
    using a b by (simp only: filter_append append_Nil2)
  finally show ?thesis by (simp add: trim_trailing_newlines_def)
qed

text \<open>The lines left out of plain text. A line that is one digit, or one digit and a full
  stop, ends in the newline branch of \<open>handleDataConsumingNumber\<close> or
  \<open>handleDataOrdinalNumber\<close>, which hands the buffer to \<open>handle_unexpected_newline\<close> as the
  text to append to the buffer: the line comes out twice.\<close>

lemma line_of_one_digit_is_doubled:
  "parse_document (''1'' @ [NL])
     = Some (Inr (Node DOCSTART []
                    [Node Paragraph [] [Node Content [] [] (ContentText ''11'')] Generic]
                    Generic))"
  "parse_document (''1.'' @ [NL])
     = Some (Inr (Node DOCSTART []
                    [Node Paragraph [] [Node Content [] [] (ContentText ''1.1.'')] Generic]
                    Generic))"
  by code_simp+

text \<open>Lines that start with a digit and go on are kept as they are.\<close>

lemma lines_that_start_with_a_digit:
  "parse_document (''12 apples'' @ [NL])
     = Some (Inr (Node DOCSTART []
                    [Node Paragraph [] [Node Content [] [] (ContentText ''12 apples'')] Generic]
                    Generic))"
  "parse_document (''a'' @ [NL] @ ''7 dwarfs'' @ [NL])
     = Some (Inr (Node DOCSTART []
                    [Node Paragraph []
                       [Node Content [] [] (ContentText ''a''),
                        Node Content [] [] (ContentText ''7 dwarfs'')]
                       Generic]
                    Generic))"
  by code_simp+

text \<open>Claim C1, as amended. Take an input of ASCII characters that holds no sigil
  (\<open>#\<close>, \<open>*\<close>, \<open>-\<close>, backtick, \<open>>\<close>, \<open>[\<close>, \<open>!\<close>, \<open>|\<close>, backslash), in which no line starts
  with the marker of an ordered list (a digit, a full stop, a space) and no line is one
  digit or one digit and a full stop. Then \<open>parse_document\<close> returns a tree whose Content
  leaves, concatenated in order, are the input without its newline characters. When the
  input has no newline but trailing ones, that is the input with its trailing newlines
  trimmed.\<close>

theorem plain_text_leaves_are_input_without_newlines:
  assumes "plain_text LineStart input"
  shows "\<exists>t. parse_document input = Some (Inr t)
           \<and> leaf_text t = filter (\<lambda>ch. ch \<noteq> NL) input
           \<and> (NL \<notin> set (trim_trailing_newlines input)
                \<longrightarrow> leaf_text t = trim_trailing_newlines input)"
proof -
  have inv: "plain_inv LineStart initial_context"
    by (simp add: plain_inv_def initial_context_def GenericNode_def)
  have "\<not> eof_reached initial_context" by (simp add: initial_context_def)
  from parse_loop_plain [OF assms inv this] obtain c' where
    c': "parse_loop input initial_context = Some (Inr c')"
        "leaf_text (builder_root c')
           = text_so_far initial_context @ filter (\<lambda>ch. ch \<noteq> NL) input"
    by blast
  have "text_so_far initial_context = []"
    by (simp add: text_so_far_def initial_context_def GenericNode_def)
  with c' show ?thesis
    by (auto simp: parse_document_def run_parser_def filter_newlines_trim)
qed

text \<open>Claim C1 at a line that starts with a digit and a full stop, with two trailing
  newlines.\<close>

theorem plain_text_leaves_are_input_without_newlines_witness:
  "plain_text LineStart (''3.5 apples, 12 pears.'' @ [NL, NL])
   \<and> NL \<notin> set (trim_trailing_newlines (''3.5 apples, 12 pears.'' @ [NL, NL]))
   \<and> (\<exists>t. parse_document (''3.5 apples, 12 pears.'' @ [NL, NL]) = Some (Inr t)
          \<and> leaf_text t = ''3.5 apples, 12 pears.''
          \<and> leaf_text t = trim_trailing_newlines (''3.5 apples, 12 pears.'' @ [NL, NL]))"
proof -
  have h: "plain_text LineStart (''3.5 apples, 12 pears.'' @ [NL, NL])"
    by (simp add: sigil_def isdigit_def next_pos_def)
  have f: "filter (\<lambda>ch. ch \<noteq> NL) (''3.5 apples, 12 pears.'' @ [NL, NL])
             = ''3.5 apples, 12 pears.''"
    by simp
  have n: "NL \<notin> set (trim_trailing_newlines (''3.5 apples, 12 pears.'' @ [NL, NL]))"
    by (simp add: trim_trailing_newlines_def)
  from plain_text_leaves_are_input_without_newlines [OF h] f h n show ?thesis by auto
qed

text \<open>Claim C1 as stated fails in two ways that the parser is built for. The newline
  between two lines of a paragraph is in no leaf, so the leaves of \<open>a\<close>, newline, \<open>b\<close>
  concatenate to \<open>ab\<close>. The marker of an ordered list is in no leaf either, so the line
  \<open>1. x\<close> is a list item with the leaf \<open>x\<close>.\<close>

theorem interior_newline_is_dropped:
  "parse_document [CHR ''a'', NL, CHR ''b'']
     = Some (Inr (Node DOCSTART []
         [Node Paragraph []
            [Node Content [] [] (ContentText ''a''),
             Node Content [] [] (ContentText ''b'')]
            Generic]
         Generic))
   \<and> leaf_text (Node DOCSTART []
         [Node Paragraph []
            [Node Content [] [] (ContentText ''a''),
             Node Content [] [] (ContentText ''b'')]
            Generic]
         Generic)
       \<noteq> trim_trailing_newlines [CHR ''a'', NL, CHR ''b'']
   \<and> parse_document (''1. x'' @ [NL])
     = Some (Inr (Node DOCSTART []
         [Node List_Ordered []
            [Node List_Element [] [Node Content [] [] (ContentText ''x'')] Generic]
            Generic]
         Generic))
   \<and> leaf_text (Node DOCSTART []
         [Node List_Ordered []
            [Node List_Element [] [Node Content [] [] (ContentText ''x'')] Generic]
            Generic]
         Generic)
       \<noteq> trim_trailing_newlines (''1. x'' @ [NL])"
  by code_simp

end
